theory Spec2Isabelle
  imports Main "HOL-Library.Sublist" "HOL-Library.Char_ord" "HOL-Library.List_Lexorder"
begin

section \<open>The launcher of \<open>main.go\<close>: data, effects and the outside world\<close>

text \<open>
  The program is one Go file. It parses seven flags, loads a JSON cache, stops the running
  containers, prunes stale images, asks on standard input for whatever is still missing,
  probes the platform, stores the cache and starts the worker container.

  Everything the program reads from outside (files, external commands, standard input) is
  a field of the record \<open>world\<close>; everything it does to the outside (text on standard
  output, containers stopped, images removed, the cache written, the container started) is
  an \<open>event\<close> of the trace a function returns. A function that can end the process
  returns \<open>status + 'a\<close>: \<open>Inl\<close> says how the process ended.
\<close>

subsection \<open>Strings: the parts of Go's \<open>strings\<close> and \<open>fmt\<close> packages the program uses\<close>

text \<open>
  Strings are byte lists, which Go reads as UTF-8. \<open>utf8.DecodeRune\<close> takes the encoding
  of one code point at the head of a string; a byte that starts no valid encoding is a rune
  of its own, the error rune U+FFFD of width 1. \<open>runeWidth\<close> is the width it returns:
  the lead byte fixes the length and the range of the second byte, the other bytes are
  continuation bytes.
\<close>

definition byteIn :: "nat \<Rightarrow> nat \<Rightarrow> char \<Rightarrow> bool" where
  "byteIn lo hi b = (lo \<le> of_char b \<and> of_char b \<le> hi)"

definition threeByteStart :: "char \<Rightarrow> char \<Rightarrow> bool" where
  "threeByteStart b0 b1 =
    ((b0 = CHR 0xE0 \<and> byteIn 0xA0 0xBF b1)
     \<or> (byteIn 0xE1 0xEC b0 \<and> byteIn 0x80 0xBF b1)
     \<or> (b0 = CHR 0xED \<and> byteIn 0x80 0x9F b1)
     \<or> (byteIn 0xEE 0xEF b0 \<and> byteIn 0x80 0xBF b1))"

definition fourByteStart :: "char \<Rightarrow> char \<Rightarrow> bool" where
  "fourByteStart b0 b1 =
    ((b0 = CHR 0xF0 \<and> byteIn 0x90 0xBF b1)
     \<or> (byteIn 0xF1 0xF3 b0 \<and> byteIn 0x80 0xBF b1)
     \<or> (b0 = CHR 0xF4 \<and> byteIn 0x80 0x8F b1))"

fun runeWidth :: "string \<Rightarrow> nat" where
  "runeWidth [] = 0"
| "runeWidth [b0] = 1"
| "runeWidth (b0 # b1 # rest) =
     (if byteIn 0xC2 0xDF b0 \<and> byteIn 0x80 0xBF b1 then 2
      else if threeByteStart b0 b1 then
        (case rest of
           b2 # _ \<Rightarrow> if byteIn 0x80 0xBF b2 then 3 else 1
         | [] \<Rightarrow> 1)
      else if fourByteStart b0 b1 then
        (case rest of
           b2 # b3 # _ \<Rightarrow> if byteIn 0x80 0xBF b2 \<and> byteIn 0x80 0xBF b3 then 4 else 1
         | _ \<Rightarrow> 1)
      else 1)"

text \<open>A string as the sequence of its runes, each with the bytes it was read from.\<close>

fun decodeRunes :: "string \<Rightarrow> string list" where
  "decodeRunes [] = []"
| "decodeRunes (b # bs) =
     take (runeWidth (b # bs)) (b # bs) # decodeRunes (drop (runeWidth (b # bs) - 1) bs)"

text \<open>
  \<open>unicode.IsSpace\<close>, and the table \<open>space\<close> of \<open>fmt\<close>, which holds the same code
  points: U+0009 to U+000D, U+0020, U+0085, U+00A0, U+1680, U+2000 to U+200A, U+2028,
  U+2029, U+202F, U+205F and U+3000, here by their encodings.
\<close>

definition isSpace :: "string \<Rightarrow> bool" where
  "isSpace r =
    (r \<in> set [[CHR 0x09], [CHR 0x0A], [CHR 0x0B], [CHR 0x0C], [CHR 0x0D], [CHR 0x20],
               [CHR 0xC2, CHR 0x85], [CHR 0xC2, CHR 0xA0], [CHR 0xE1, CHR 0x9A, CHR 0x80],
               [CHR 0xE2, CHR 0x80, CHR 0xA8], [CHR 0xE2, CHR 0x80, CHR 0xA9],
               [CHR 0xE2, CHR 0x80, CHR 0xAF], [CHR 0xE2, CHR 0x81, CHR 0x9F],
               [CHR 0xE3, CHR 0x80, CHR 0x80]]
     \<or> (case r of
           [b0, b1, b2] \<Rightarrow> b0 = CHR 0xE2 \<and> b1 = CHR 0x80 \<and> byteIn 0x80 0x8A b2
         | _ \<Rightarrow> False))"

text \<open>\<open>strings.TrimSpace\<close>.\<close>

definition trimSpace :: "string \<Rightarrow> string" where
  "trimSpace s = concat (rev (dropWhile isSpace (rev (dropWhile isSpace (decodeRunes s)))))"

text \<open>\<open>strings.Fields\<close>: the maximal runs of runes that are not white space.\<close>

fun fieldsFrom :: "string \<Rightarrow> string list \<Rightarrow> string list" where
  "fieldsFrom cur [] = (if cur = [] then [] else [cur])"
| "fieldsFrom cur (r # rs) =
     (if isSpace r then (if cur = [] then fieldsFrom [] rs else cur # fieldsFrom [] rs)
      else fieldsFrom (cur @ r) rs)"

definition Fields :: "string \<Rightarrow> string list" where
  "Fields s = fieldsFrom [] (decodeRunes s)"

text \<open>\<open>strings.Split(s, "\n")\<close>: never empty, the empty string gives one empty piece.\<close>

fun splitLines :: "string \<Rightarrow> string list" where
  "splitLines [] = [[]]"
| "splitLines (c # cs) =
     (if c = CHR 0x0A then [] # splitLines cs
      else (case splitLines cs of [] \<Rightarrow> [[c]] | l # ls \<Rightarrow> (c # l) # ls))"

text \<open>\<open>strings.Contains\<close>.\<close>

fun containsStr :: "string \<Rightarrow> string \<Rightarrow> bool" where
  "containsStr [] sub = (sub = [])"
| "containsStr (c # cs) sub = (prefix sub (c # cs) \<or> containsStr cs sub)"

text \<open>The helper \<open>contains\<close> of the program (line 19): membership in a slice.\<close>

fun contains :: "string list \<Rightarrow> string \<Rightarrow> bool" where
  "contains [] str = False"
| "contains (s # slice) str = (if s = str then True else contains slice str)"

definition repoNames :: "string list" where
  "repoNames = [''ionetcontainers/io-worker-vc'', ''ionetcontainers/io-worker-monitor'',
                ''ionetcontainers/io-launch'']"

definition validArchChoices :: "string list" where
  "validArchChoices = [''x86_64'', ''arm64'', ''aarch64'']"

definition validOSChoices :: "string list" where
  "validOSChoices = [''macOS'', ''Linux'']"

subsection \<open>Data\<close>

text \<open>The struct \<open>Arguments\<close> (line 213) and its zero value \<open>new(Arguments)\<close>.\<close>

record Arguments =
  DeviceName :: string
  DeviceID :: string
  UserID :: string
  OperatingSystem :: string
  UseGPUs :: string
  Architecture :: string
  Beta :: bool

definition newArguments :: Arguments where
  "newArguments = \<lparr>DeviceName = [], DeviceID = [], UserID = [], OperatingSystem = [],
                     UseGPUs = [], Architecture = [], Beta = False\<rparr>"

text \<open>The seven values \<open>flag.Parse\<close> leaves behind the pointers of lines 224 to 230.\<close>

record Flags =
  deviceName :: string
  deviceID :: string
  userID :: string
  operatingSystem :: string
  useGPUs :: string
  architecture :: string
  beta :: bool

text \<open>
  A value of the decoded cache, \<open>map[string]interface{}\<close>. \<open>JOther\<close> stands for a
  number, an array or an object and carries the text \<open>%v\<close> prints for it.
\<close>

datatype jvalue = JString string | JBool bool | JNull | JOther string

type_synonym cache = "string \<Rightarrow> jvalue option"

text \<open>
  \<open>fmt.Sprintf("%v", cache[key])\<close>: a key the map lacks reads as the nil interface,
  which \<open>%v\<close> prints as the five bytes \<open><nil>\<close>.
\<close>

fun sprintV :: "jvalue option \<Rightarrow> string" where
  "sprintV None = ''<nil>''"
| "sprintV (Some JNull) = ''<nil>''"
| "sprintV (Some (JString s)) = s"
| "sprintV (Some (JBool b)) = (if b then ''true'' else ''false'')"
| "sprintV (Some (JOther s)) = s"

text \<open>
  An image as \<open>docker image ls\<close> knows it: the four values the format string of line 60
  prints. \<open>CreatedAt\<close> is the text Docker prints for the creation time, such as
  \<open>2024-05-03 10:00:00 +0000 UTC\<close>; with one time zone, a later time is a greater text.
\<close>

record image =
  Repository :: string
  Tag :: string
  CreatedAt :: string
  ID :: string

text \<open>How the process ends.\<close>

datatype status =
    OsExit1       \<comment> \<open>\<open>os.Exit(1)\<close>\<close>
  | LogFatal      \<comment> \<open>\<open>log.Fatal\<close>: the error on standard error, then exit status 1\<close>
  | EarlyReturn   \<comment> \<open>the \<open>return\<close> after a failed \<open>fmt.Scanln\<close>: exit status 0\<close>
  | Finished      \<comment> \<open>\<open>main\<close> ran to its last line: exit status 0\<close>

fun exitCode :: "status \<Rightarrow> nat" where
  "exitCode OsExit1 = 1"
| "exitCode LogFatal = 1"
| "exitCode EarlyReturn = 0"
| "exitCode Finished = 0"

text \<open>What the process does to the outside, in the order it does it.\<close>

datatype event =
    Print string                          \<comment> \<open>text written to standard output\<close>
  | DockerStop "string list"              \<comment> \<open>\<open>docker stop\<close> on these containers\<close>
  | DockerKill "string list"              \<comment> \<open>\<open>docker kill\<close> on these containers\<close>
  | DockerRmi string                      \<comment> \<open>\<open>docker rmi\<close> on this image\<close>
  | SaveCache "(string \<times> string) list"    \<comment> \<open>the cache file rewritten with these pairs\<close>
  | DockerRun "string list"               \<comment> \<open>the launch command, executed\<close>

definition Println :: "string \<Rightarrow> event" where
  "Println s = Print (s @ [CHR 0x0A])"

text \<open>
  The outside world of one run. An \<open>option\<close> is the output of a command, \<open>None\<close> when
  \<open>cmd.Output\<close> returns an error; a \<open>bool\<close> says that \<open>cmd.Run\<close> returned no error.
  \<open>uuidParse\<close> is the verdict of \<open>uuid.Parse\<close> of the library
  \<open>github.com/google/uuid\<close>, which is not part of the repository.
  \<open>dockerImageLs\<close> gives the images Docker holds at the moment the listing for a
  repository runs; what the shell pipeline of line 60 makes of them is part of the
  program and is modelled below.
\<close>

record world =
  cacheFile :: "cache option"           \<comment> \<open>the decoded \<open>ionet_device_cache.txt\<close>\<close>
  stdin :: "string list"                \<comment> \<open>the lines of standard input, then end of input\<close>
  uuidParse :: "string \<Rightarrow> bool"
  dockerInfoFirst :: bool               \<comment> \<open>\<open>docker info\<close> at line 259\<close>
  dockerInfoSecond :: bool              \<comment> \<open>\<open>docker info\<close> at line 347\<close>
  dockerPs :: "string option"           \<comment> \<open>\<open>docker ps -q\<close>\<close>
  dockerStopOk :: bool
  dockerKillOk :: bool
  dockerImageLs :: "string \<Rightarrow> image list option"  \<comment> \<open>the images of \<open>docker image ls\<close>, by repository asked\<close>
  dockerRmiOk :: "string \<Rightarrow> bool"       \<comment> \<open>\<open>docker rmi\<close>, by image\<close>
  unameM :: "string option"             \<comment> \<open>\<open>uname -m\<close>\<close>
  sysctlBrand :: bool                   \<comment> \<open>\<open>sysctl -n machdep.cpu.brand_string\<close>\<close>
  sysctlMachdep :: "string option"      \<comment> \<open>the \<open>sysctl -a\<close> pipeline of line 159\<close>
  nvidiaSmi :: bool
  nvidiaCtk :: "string option"          \<comment> \<open>\<open>nvidia-ctk --version\<close>\<close>
  cacheWritable :: bool                 \<comment> \<open>creating and encoding the cache file succeed\<close>
  dockerRunOk :: bool                   \<comment> \<open>the launch command returns no error\<close>

subsection \<open>The Command Builder: \<open>constructDockerCommand\<close> (line 134)\<close>

definition constructDockerCommand :: "world \<Rightarrow> Arguments \<Rightarrow> string \<Rightarrow> status + string list" where
  "constructDockerCommand w args arch =
    (let c0 = [''docker'', ''run'', ''-d'',
               ''-v'', ''/var/run/docker.sock:/var/run/docker.sock'', ''--network'', ''host''];
         c1 = c0 @ [''-e'', ''ARCH='' @ arch];
         c2 = (if arch \<noteq> ''x86_64'' then c1 @ [''--platform'', ''linux/amd64''] else c1);
         c3 = (if DeviceName args \<noteq> [] then c2 @ [''-e'', ''DEVICE_NAME='' @ DeviceName args] else c2);
         c4 = (if DeviceID args \<noteq> [] then c3 @ [''-e'', ''DEVICE_ID='' @ DeviceID args] else c3);
         c5 = (if UserID args \<noteq> [] then c4 @ [''-e'', ''USER_ID='' @ UserID args] else c4);
         c6 = (if OperatingSystem args \<noteq> []
               then c5 @ [''-e'', ''OPERATING_SYSTEM='' @ OperatingSystem args] else c5);
         c7 = (if UseGPUs args \<noteq> [] then c6 @ [''-e'', ''USEGPUS='' @ UseGPUs args] else c6);
         image = (if Beta args
                  then [''-e'', ''CURRENT_LOG_LEVEL=DEBUG'', ''-e'', ''ENVIRONMENT=DEV'',
                        ''ionetcontainers/io-launch-beta:v0.1'']
                  else [''ionetcontainers/io-launch:v0.1''])
     in if OperatingSystem args = ''macOS''
        then (case sysctlMachdep w of
                None \<Rightarrow> Inl LogFatal
              | Some macInfo \<Rightarrow>
                  Inr (c7 @ [''-e'', ''MAC_INFO='' @ trimSpace macInfo] @ [''--pull'', ''always'']
                       @ image))
        else Inr (c7 @ image))"

subsection \<open>Sequencing\<close>

text \<open>
  A step yields its events and either the way the process ended or a result; the next
  step runs only after a result, and the events are appended in order.
\<close>

type_synonym 'a io = "event list \<times> (status + 'a)"

definition andThen :: "'a io \<Rightarrow> ('a \<Rightarrow> 'b io) \<Rightarrow> 'b io" where
  "andThen m k =
    (case m of
       (es, Inl s) \<Rightarrow> (es, Inl s)
     | (es, Inr a) \<Rightarrow> (case k a of (es', r) \<Rightarrow> (es @ es', r)))"

subsection \<open>The cache and the fallback of lines 235 to 257\<close>

definition loadCache :: "world \<Rightarrow> status + cache" where
  "loadCache w = (case cacheFile w of None \<Rightarrow> Inl LogFatal | Some c \<Rightarrow> Inr c)"

text \<open>
  Every branch assigns to \<open>args.DeviceName\<close>, as the source does; no statement of
  \<open>main\<close> copies a flag's value into \<open>args\<close>.
\<close>

definition cacheFallback :: "Flags \<Rightarrow> cache \<Rightarrow> Arguments" where
  "cacheFallback fl cache =
    (let a0 = newArguments;
         a1 = (if deviceName fl = [] then a0\<lparr>DeviceName := sprintV (cache ''device_name'')\<rparr> else a0);
         a2 = (if deviceID fl = [] then a1\<lparr>DeviceName := sprintV (cache ''device_id'')\<rparr> else a1);
         a3 = (if userID fl = [] then a2\<lparr>DeviceName := sprintV (cache ''user_id'')\<rparr> else a2);
         a4 = (if operatingSystem fl = []
               then a3\<lparr>DeviceName := sprintV (cache ''operating_system'')\<rparr> else a3);
         a5 = (if useGPUs fl = [] then a4\<lparr>DeviceName := sprintV (cache ''usegpus'')\<rparr> else a4);
         a6 = (if architecture fl = [] then a5\<lparr>DeviceName := sprintV (cache ''arch'')\<rparr> else a5);
         a7 = (if beta fl then a6\<lparr>DeviceName := sprintV (cache ''beta'')\<rparr> else a6)
     in a7)"

definition cacheData :: "Arguments \<Rightarrow> (string \<times> string) list" where
  "cacheData args =
    [(''device_name'', DeviceName args), (''device_id'', DeviceID args), (''user_id'', UserID args),
     (''operating_system'', OperatingSystem args), (''usegpus'', UseGPUs args)]"

definition saveCache :: "world \<Rightarrow> (string \<times> string) list \<Rightarrow> unit io" where
  "saveCache w data = ([SaveCache data], if cacheWritable w then Inr () else Inl LogFatal)"

subsection \<open>Probes\<close>

definition isValidUUID :: "world \<Rightarrow> string \<Rightarrow> bool" where
  "isValidUUID w v = uuidParse w v"

definition getMacInfo :: "world \<Rightarrow> bool" where
  "getMacInfo w = sysctlBrand w"

definition getPlatformArchitecture :: "world \<Rightarrow> status + string" where
  "getPlatformArchitecture w =
    (case unameM w of None \<Rightarrow> Inl LogFatal | Some output \<Rightarrow> Inr (trimSpace output))"

definition checkDocker :: "bool \<Rightarrow> event list \<times> bool" where
  "checkDocker up =
    (if \<not> up
     then ([Println ''Docker daemon is not running. Please start Docker and try again.''], False)
     else ([], True))"

definition checkGPUAvailability :: "world \<Rightarrow> event list \<times> bool" where
  "checkGPUAvailability w =
    (if \<not> nvidiaSmi w
     then ([Println ''nvidia-smi failed - please rerun io-setup or contact support on discord''],
           False)
     else ([], True))"

definition checkNvidiaCTK :: "world \<Rightarrow> event list \<times> bool" where
  "checkNvidiaCTK w =
    (case nvidiaCtk w of
       None \<Rightarrow>
         ([Println ''NVIDIA Container Toolkit check failed - please rerun io-setup or contact support on discord''],
          False)
     | Some output \<Rightarrow>
         if containsStr output ''NVIDIA Container Toolkit CLI version'' then ([], True)
         else ([Println ''NVIDIA Container Toolkit not installed - please rerun io-setup or contact support on discord''],
               False))"

text \<open>\<open>if !checkDocker() { os.Exit(1) }\<close>, lines 259 and 347.\<close>

definition requireDocker :: "bool \<Rightarrow> unit io" where
  "requireDocker up =
    (case checkDocker up of (es, ok) \<Rightarrow> (es, if \<not> ok then Inl OsExit1 else Inr ()))"

subsection \<open>Stopping containers and the Image Janitor\<close>

definition stopRunningContainers :: "world \<Rightarrow> unit io" where
  "stopRunningContainers w =
    (case dockerPs w of
       None \<Rightarrow> ([], Inl LogFatal)
     | Some output \<Rightarrow>
        (let containers = trimSpace output;
             stopping = [Println ''Stopping all running Docker containers...'',
                         DockerStop (Fields containers)];
             killing = [Println ''Stopping containers failed, attempting to forcefully kill containers...'',
                        DockerKill (Fields containers)]
         in if containers \<noteq> [] then
              (if dockerStopOk w then (stopping, Inr ())
               else if dockerKillOk w then (stopping @ killing, Inr ())
               else (stopping @ killing @ [Println ''Failed to kill running Docker containers.''],
                     Inl OsExit1))
            else ([], Inr ())))"

text \<open>The loop of lines 67 to 72: the last field of every line that has a field.\<close>

fun lastFields :: "string list \<Rightarrow> string list" where
  "lastFields [] = []"
| "lastFields (img # sortedImages) =
     (let fs = Fields img
      in if length fs > 0 then last fs # lastFields sortedImages else lastFields sortedImages)"

text \<open>
  The shell command of line 60:
  \<^verbatim>\<open>docker image ls --no-trunc --format '{{.Repository}}:{{.Tag}} {{.CreatedAt}} {{.ID}}'
     | grep -i '<repoName>' | sort -r\<close>
  Docker prints one line per image, \<open>grep -i\<close> keeps the lines that hold the repository
  name in any letter case (the three names hold no operator of regular expressions), and
  \<open>sort -r\<close> puts the lines in descending order, compared as whole lines from their first
  byte (the order of the C locale).
\<close>

definition imageLine :: "image \<Rightarrow> string" where
  "imageLine i = Repository i @ '':'' @ Tag i @ '' '' @ CreatedAt i @ '' '' @ ID i"

definition lowerByte :: "char \<Rightarrow> char" where
  "lowerByte c = (if byteIn 0x41 0x5A c then char_of (of_char c + (32::nat)) else c)"

definition grepI :: "string \<Rightarrow> string \<Rightarrow> bool" where
  "grepI pattern textLine = containsStr (map lowerByte textLine) (map lowerByte pattern)"

definition sortR :: "string list \<Rightarrow> string list" where
  "sortR textLines = rev (sort textLines)"

definition imageListing :: "string \<Rightarrow> image list \<Rightarrow> string" where
  "imageListing repoName images =
    concat (map (\<lambda>l. l @ [CHR 0x0A]) (sortR (filter (grepI repoName) (map imageLine images))))"

definition getDockerImageIDsSorted :: "world \<Rightarrow> string \<Rightarrow> status + string list" where
  "getDockerImageIDsSorted w repoName =
    (case dockerImageLs w repoName of
       None \<Rightarrow> Inl LogFatal
     | Some images \<Rightarrow>
         Inr (lastFields (splitLines (trimSpace (imageListing repoName images)))))"

definition removeDockerImage :: "world \<Rightarrow> string \<Rightarrow> unit io" where
  "removeDockerImage w imageID =
    ([DockerRmi imageID], if dockerRmiOk w imageID then Inr () else Inl LogFatal)"

text \<open>The inner loop of line 269.\<close>

fun removeImages :: "world \<Rightarrow> string list \<Rightarrow> unit io" where
  "removeImages w [] = ([], Inr ())"
| "removeImages w (imageID # rest) =
     andThen (removeDockerImage w imageID) (\<lambda>_. removeImages w rest)"

text \<open>The body of the loop of line 265, for one repository, and the loop itself.\<close>

definition pruneRepo :: "world \<Rightarrow> string \<Rightarrow> unit io" where
  "pruneRepo w repoName =
    (case getDockerImageIDsSorted w repoName of
       Inl s \<Rightarrow> ([], Inl s)
     | Inr imageIDs \<Rightarrow>
         if length imageIDs > 1
         then andThen ([Print (''removing stale images: '' @ repoName @ [CHR 0x0A])], Inr ())
                (\<lambda>_. removeImages w (drop 1 imageIDs))
         else ([], Inr ()))"

fun pruneRepos :: "world \<Rightarrow> string list \<Rightarrow> unit io" where
  "pruneRepos w [] = ([], Inr ())"
| "pruneRepos w (repoName # rest) = andThen (pruneRepo w repoName) (\<lambda>_. pruneRepos w rest)"

subsection \<open>Prompts: the loops of lines 275 to 339\<close>

text \<open>
  \<open>fmt.Scanln(&x)\<close> with one string operand succeeds on a line that holds exactly one
  field and stores it; an empty line, a line with more fields and the end of input are
  errors. It reads rune by rune and writes each rune to the token, so a byte that is no
  valid encoding is stored as the three bytes of U+FFFD. Standard input is a finite list
  of lines, so every loop ends.
\<close>

definition storedRune :: "string \<Rightarrow> string" where
  "storedRune r =
    (case r of
       [b] \<Rightarrow> if byteIn 0x80 0xFF b then [CHR 0xEF, CHR 0xBF, CHR 0xBD] else [b]
     | _ \<Rightarrow> r)"

definition scanToken :: "string \<Rightarrow> string option" where
  "scanToken textLine =
    (case Fields textLine of
       [tok] \<Rightarrow> Some (concat (map storedRune (decodeRunes tok)))
     | _ \<Rightarrow> None)"

definition scanln :: "string list \<Rightarrow> (string \<times> string list) option" where
  "scanln inp =
    (case inp of
       [] \<Rightarrow> None
     | textLine # rest \<Rightarrow> (case scanToken textLine of None \<Rightarrow> None | Some tok \<Rightarrow> Some (tok, rest)))"

text \<open>
  The five loops have one shape: while \<open>again v\<close>, print the prompt, read a token into
  \<open>v\<close>, \<open>return\<close> from \<open>main\<close> if the read fails, and complain if \<open>invalid v\<close>.
\<close>

fun promptLoop ::
  "(string \<Rightarrow> bool) \<Rightarrow> (string \<Rightarrow> bool) \<Rightarrow> string \<Rightarrow> string \<Rightarrow> string \<Rightarrow> string list
     \<Rightarrow> (string \<times> string list) io" where
  "promptLoop again invalid prompt complaint v [] =
     (if again v then ([Print prompt], Inl EarlyReturn) else ([], Inr (v, [])))"
| "promptLoop again invalid prompt complaint v (textLine # rest) =
     (if again v then
        (case scanToken textLine of
           None \<Rightarrow> ([Print prompt], Inl EarlyReturn)
         | Some tok \<Rightarrow>
             andThen (Print prompt # (if invalid tok then [Print complaint] else []), Inr ())
               (\<lambda>_. promptLoop again invalid prompt complaint tok rest))
      else ([], Inr (v, textLine # rest)))"

definition deviceNamePrompt :: string where
  "deviceNamePrompt = ''Enter device name: ''"

definition deviceIDPrompt :: string where
  "deviceIDPrompt = ''Enter device ID (UUID): ''"

definition userIDPrompt :: string where
  "userIDPrompt = ''Enter user ID (UUID): ''"

definition osPrompt :: string where
  "osPrompt = ''Enter operating system (macOS/Linux): ''"

definition gpuPrompt :: string where
  "gpuPrompt = ''Does this system have an NVIDIA GPU which you want to use? (true/false): ''"

definition invalidUUIDText :: string where
  "invalidUUIDText =
     ''Invalid UUID. Please enter a proper UUID as shown on the website dashboard.'' @ [CHR 0x0A]"

definition promptDeviceName :: "Arguments \<Rightarrow> string list \<Rightarrow> (Arguments \<times> string list) io" where
  "promptDeviceName args inp =
    andThen
      (promptLoop (\<lambda>v. v = []) (\<lambda>v. v = []) deviceNamePrompt
         (''Device name cannot be empty. Please enter a valid name.'' @ [CHR 0x0A])
         (DeviceName args) inp)
      (\<lambda>(v, rest). ([], Inr (args\<lparr>DeviceName := v\<rparr>, rest)))"

definition promptDeviceID :: "world \<Rightarrow> Arguments \<Rightarrow> string list \<Rightarrow> (Arguments \<times> string list) io" where
  "promptDeviceID w args inp =
    andThen
      (promptLoop (\<lambda>v. v = [] \<or> \<not> isValidUUID w v) (\<lambda>v. \<not> isValidUUID w v) deviceIDPrompt
         invalidUUIDText (DeviceID args) inp)
      (\<lambda>(v, rest). ([], Inr (args\<lparr>DeviceID := v\<rparr>, rest)))"

definition promptUserID :: "world \<Rightarrow> Arguments \<Rightarrow> string list \<Rightarrow> (Arguments \<times> string list) io" where
  "promptUserID w args inp =
    andThen
      (promptLoop (\<lambda>v. v = [] \<or> \<not> isValidUUID w v) (\<lambda>v. \<not> isValidUUID w v) userIDPrompt
         invalidUUIDText (UserID args) inp)
      (\<lambda>(v, rest). ([], Inr (args\<lparr>UserID := v\<rparr>, rest)))"

definition promptOperatingSystem :: "Arguments \<Rightarrow> string list \<Rightarrow> (Arguments \<times> string list) io" where
  "promptOperatingSystem args inp =
    andThen
      (promptLoop (\<lambda>v. v = [] \<or> \<not> contains validOSChoices v) (\<lambda>v. \<not> contains validOSChoices v)
         osPrompt
         (''Invalid operating system. Please choose from macOS/Linux.'' @ [CHR 0x0A])
         (OperatingSystem args) inp)
      (\<lambda>(v, rest). ([], Inr (args\<lparr>OperatingSystem := v\<rparr>, rest)))"

text \<open>Lines 319 to 323.\<close>

definition resolveArchitecture :: "world \<Rightarrow> Arguments \<Rightarrow> Arguments io" where
  "resolveArchitecture w args =
    (if OperatingSystem args = ''Windows'' then ([], Inr (args\<lparr>Architecture := ''x86_64''\<rparr>))
     else if Architecture args = [] then
       (case getPlatformArchitecture w of
          Inl s \<Rightarrow> ([], Inl s)
        | Inr arch \<Rightarrow> ([], Inr (args\<lparr>Architecture := arch\<rparr>)))
     else ([], Inr args))"

text \<open>Lines 325 to 339.\<close>

definition macNote :: string where
  "macNote = ''NOTE: If you see a warning regarding the platform mismatch (linux/amd64 vs. linux/arm64/v8), please ignore it. This is expected when running on macOS with M1/M2/M3 chips.''"

definition resolveUseGPUs :: "Arguments \<Rightarrow> string list \<Rightarrow> (Arguments \<times> string list) io" where
  "resolveUseGPUs args inp =
    (if OperatingSystem args = ''macOS'' then ([Println macNote], Inr (args\<lparr>UseGPUs := ''false''\<rparr>, inp))
     else if UseGPUs args = [] then
       andThen
         (promptLoop (\<lambda>v. v = [] \<or> (v \<noteq> ''true'' \<and> v \<noteq> ''false''))
            (\<lambda>v. v \<noteq> ''true'' \<and> v \<noteq> ''false'') gpuPrompt
            (''Invalid input. Please enter '' @ [CHR 0x27] @ ''true'' @ [CHR 0x27] @ '' or ''
               @ [CHR 0x27] @ ''false'' @ [CHR 0x27] @ ''.'' @ [CHR 0x0A])
            (UseGPUs args) inp)
         (\<lambda>(v, rest). ([], Inr (args\<lparr>UseGPUs := v\<rparr>, rest)))
     else ([], Inr (args, inp)))"

text \<open>The Config Resolver after the fallback: lines 275 to 339 in one piece.\<close>

definition resolveArguments :: "world \<Rightarrow> Arguments \<Rightarrow> string list \<Rightarrow> Arguments io" where
  "resolveArguments w args0 inp0 =
    andThen (promptDeviceName args0 inp0) (\<lambda>(args1, inp1).
    andThen (promptDeviceID w args1 inp1) (\<lambda>(args2, inp2).
    andThen (promptUserID w args2 inp2) (\<lambda>(args3, inp3).
    andThen (promptOperatingSystem args3 inp3) (\<lambda>(args4, inp4).
    andThen (resolveArchitecture w args4) (\<lambda>args5.
    andThen (resolveUseGPUs args5 inp4) (\<lambda>(args6, inp6). ([], Inr args6)))))))"

subsection \<open>The checks of lines 341 to 364 and the launch\<close>

definition gpuChecks :: "world \<Rightarrow> Arguments \<Rightarrow> unit io" where
  "gpuChecks w args =
    (if OperatingSystem args \<noteq> ''macOS'' \<and> UseGPUs args = ''true'' then
       (case checkGPUAvailability w of
          (es1, ok1) \<Rightarrow>
            if \<not> ok1 then (es1, Inl OsExit1)
            else (case checkNvidiaCTK w of
                    (es2, ok2) \<Rightarrow> (es1 @ es2, if \<not> ok2 then Inl OsExit1 else Inr ())))
     else ([], Inr ()))"

definition validateChoices :: "Arguments \<Rightarrow> unit io" where
  "validateChoices args =
    (if \<not> contains validOSChoices (OperatingSystem args) then
       ([Print (''Error: Invalid operating system choice '' @ [CHR 0x27] @ OperatingSystem args
                @ [CHR 0x27, CHR 0x0A])], Inl OsExit1)
     else if \<not> contains validArchChoices (Architecture args) then
       ([Print (''Platform '' @ Architecture args @ '' - '' @ OperatingSystem args
                @ '' is not supported'' @ [CHR 0x0A])], Inl OsExit1)
     else ([], Inr ()))"

text \<open>
  Line 361. The apostrophe of the message is stored in the source file as the eight bytes
  written out below.
\<close>

definition macSiliconCheck :: "world \<Rightarrow> Arguments \<Rightarrow> unit io" where
  "macSiliconCheck w args =
    (if OperatingSystem args = ''macOS'' \<and> \<not> getMacInfo w then
       ([Println (''Your hardware isn''
                  @ [CHR 0xC3, CHR 0xA2, CHR 0xE2, CHR 0x82, CHR 0xAC, CHR 0xE2, CHR 0x84, CHR 0xA2]
                  @ ''t Mac silicon (M1, M2, M3) chips, please select proper OS and chip from website'')],
        Inl OsExit1)
     else ([], Inr ()))"

definition runCommand :: "world \<Rightarrow> string list \<Rightarrow> unit io" where
  "runCommand w dockerCommand =
    ([DockerRun dockerCommand], if dockerRunOk w then Inr () else Inl LogFatal)"

text \<open>Lines 341 to 382: everything after the resolver.\<close>

definition launch :: "world \<Rightarrow> Arguments \<Rightarrow> unit io" where
  "launch w args =
    andThen (gpuChecks w args) (\<lambda>_.
    andThen (requireDocker (dockerInfoSecond w)) (\<lambda>_.
    andThen (validateChoices args) (\<lambda>_.
    andThen (macSiliconCheck w args) (\<lambda>_.
    andThen (saveCache w (cacheData args)) (\<lambda>_.
    andThen ([], constructDockerCommand w args (Architecture args)) (\<lambda>dockerCommand.
    runCommand w dockerCommand))))))"

subsection \<open>\<open>main\<close> (line 223)\<close>

text \<open>Lines 259 to 273: what \<open>main\<close> does between the fallback and the first prompt.\<close>

definition beforePrompts :: "world \<Rightarrow> unit io" where
  "beforePrompts w =
    andThen (requireDocker (dockerInfoFirst w)) (\<lambda>_.
    andThen (stopRunningContainers w) (\<lambda>_.
    pruneRepos w repoNames))"

definition main :: "Flags \<Rightarrow> world \<Rightarrow> event list \<times> status" where
  "main fl w =
    (case loadCache w of
       Inl s \<Rightarrow> ([], s)
     | Inr cache \<Rightarrow>
        (case andThen (beforePrompts w) (\<lambda>_.
              andThen (resolveArguments w (cacheFallback fl cache) (stdin w)) (\<lambda>args.
              launch w args)) of
           (es, Inl s) \<Rightarrow> (es, s)
         | (es, Inr _) \<Rightarrow> (es, Finished)))"

section \<open>Notions the statements use\<close>

subsection \<open>The parts of a launch command\<close>

text \<open>
  The pieces \<open>constructDockerCommand\<close> appends, in its order; lemma
  \<open>constructDockerCommand_parts\<close> below shows that the command is their concatenation.
\<close>

definition envFlag :: "string \<Rightarrow> string \<Rightarrow> string list" where
  "envFlag name v = (if v \<noteq> [] then [''-e'', name @ ''='' @ v] else [])"

definition fixedPart :: "string \<Rightarrow> string list" where
  "fixedPart arch =
    [''docker'', ''run'', ''-d'', ''-v'', ''/var/run/docker.sock:/var/run/docker.sock'',
     ''--network'', ''host'', ''-e'', ''ARCH='' @ arch]"

definition platformPart :: "string \<Rightarrow> string list" where
  "platformPart arch = (if arch \<noteq> ''x86_64'' then [''--platform'', ''linux/amd64''] else [])"

definition identityPart :: "Arguments \<Rightarrow> string list" where
  "identityPart args =
    envFlag ''DEVICE_NAME'' (DeviceName args) @ envFlag ''DEVICE_ID'' (DeviceID args)
    @ envFlag ''USER_ID'' (UserID args) @ envFlag ''OPERATING_SYSTEM'' (OperatingSystem args)
    @ envFlag ''USEGPUS'' (UseGPUs args)"

definition macPart :: "string \<Rightarrow> string list" where
  "macPart macInfo = [''-e'', ''MAC_INFO='' @ trimSpace macInfo, ''--pull'', ''always'']"

definition imagePart :: "Arguments \<Rightarrow> string list" where
  "imagePart args =
    (if Beta args
     then [''-e'', ''CURRENT_LOG_LEVEL=DEBUG'', ''-e'', ''ENVIRONMENT=DEV'',
           ''ionetcontainers/io-launch-beta:v0.1'']
     else [''ionetcontainers/io-launch:v0.1''])"

definition isImageRef :: "string \<Rightarrow> bool" where
  "isImageRef t =
    (t = ''ionetcontainers/io-launch-beta:v0.1'' \<or> t = ''ionetcontainers/io-launch:v0.1'')"

subsection \<open>Reading a trace\<close>

text \<open>The images a trace removes, in order.\<close>

fun removedImages :: "event list \<Rightarrow> string list" where
  "removedImages [] = []"
| "removedImages (DockerRmi imageID # es) = imageID # removedImages es"
| "removedImages (e # es) = removedImages es"

text \<open>The texts of the five prompts.\<close>

definition promptTexts :: "string list" where
  "promptTexts = [deviceNamePrompt, deviceIDPrompt, userIDPrompt, osPrompt, gpuPrompt]"

text \<open>An event that is neither the cache being written nor the container being started.\<close>

fun harmless :: "event \<Rightarrow> bool" where
  "harmless (SaveCache d) = False"
| "harmless (DockerRun c) = False"
| "harmless e = True"

subsection \<open>Runs that end at a failed read\<close>

text \<open>
  A trace ends quietly when its last event is one of the five prompts and nothing in it
  wrote the cache or started the container; a step is quiet when every trace it ends by
  the early \<open>return\<close> ends so.
\<close>

definition quietEnd :: "event list \<Rightarrow> bool" where
  "quietEnd es = (es \<noteq> [] \<and> (\<exists>p \<in> set promptTexts. last es = Print p) \<and> list_all harmless es)"

definition quietly :: "'a io \<Rightarrow> bool" where
  "quietly m = (snd m = Inl EarlyReturn \<longrightarrow> quietEnd (fst m))"

text \<open>
  A line of standard input that a prompt loop reads and then asks again: it holds one
  token, and with that token the loop's condition still holds.
\<close>

definition unacceptable :: "(string \<Rightarrow> bool) \<Rightarrow> string \<Rightarrow> bool" where
  "unacceptable again textLine =
    (case scanToken textLine of None \<Rightarrow> False | Some tok \<Rightarrow> again tok)"

text \<open>
  A run that returns at a prompt without a word: it ends by the early \<open>return\<close>, the
  prompt is the last thing it did, it neither wrote the cache nor started the container,
  and its exit status is 0.
\<close>

definition silentReturn :: "string \<Rightarrow> event list \<times> status \<Rightarrow> bool" where
  "silentReturn prompt run =
    (snd run = EarlyReturn \<and> fst run \<noteq> [] \<and> last (fst run) = Print prompt
     \<and> list_all harmless (fst run) \<and> exitCode (snd run) = 0)"

subsection \<open>The fallback, as the list of cache keys it reads\<close>

text \<open>
  The keys of the branches of lines 237 to 257 that are taken, in the order of the
  source; each taken branch overwrites \<open>DeviceName\<close>, so the last one decides it.
\<close>

definition fallbackKeys :: "Flags \<Rightarrow> string list" where
  "fallbackKeys fl =
    (if deviceName fl = [] then [''device_name''] else [])
    @ (if deviceID fl = [] then [''device_id''] else [])
    @ (if userID fl = [] then [''user_id''] else [])
    @ (if operatingSystem fl = [] then [''operating_system''] else [])
    @ (if useGPUs fl = [] then [''usegpus''] else [])
    @ (if architecture fl = [] then [''arch''] else [])
    @ (if beta fl then [''beta''] else [])"

subsection \<open>Sample inputs\<close>

text \<open>
  A stand-in for \<open>uuid.Parse\<close> in the sample worlds: it accepts the canonical form of
  36 bytes, hexadecimal digits in groups of 8, 4, 4, 4 and 12 separated by hyphens, which
  \<open>uuid.Parse\<close> accepts too.
\<close>

definition isHexDigit :: "char \<Rightarrow> bool" where
  "isHexDigit c = (c \<in> set ''0123456789abcdefABCDEF'')"

definition canonicalUUID :: "string \<Rightarrow> bool" where
  "canonicalUUID s =
    (length s = 36 \<and>
     list_all (\<lambda>(i, c). if i \<in> set [8, 13, 18, 23] then c = CHR ''-'' else isHexDigit c)
       (enumerate 0 s))"

text \<open>
  A Linux host on x86_64: Docker answers, no container runs, no image is listed, the cache
  file holds the empty object, standard input is closed, and there is no GPU tooling.
\<close>

definition quietWorld :: world where
  "quietWorld =
    \<lparr>cacheFile = Some Map.empty, stdin = [], uuidParse = canonicalUUID,
     dockerInfoFirst = True, dockerInfoSecond = True, dockerPs = Some [],
     dockerStopOk = True, dockerKillOk = True, dockerImageLs = (\<lambda>_. Some []),
     dockerRmiOk = (\<lambda>_. True), unameM = Some (''x86_64'' @ [CHR 0x0A]), sysctlBrand = False,
     sysctlMachdep = None, nvidiaSmi = False, nvidiaCtk = None, cacheWritable = True,
     dockerRunOk = True\<rparr>"

text \<open>The same host with the given lines on standard input, and then the end of input.\<close>

definition closedAfter :: "string list \<Rightarrow> world" where
  "closedAfter textLines = quietWorld\<lparr>stdin := textLines\<rparr>"

text \<open>Two identifiers that \<open>canonicalUUID\<close> accepts.\<close>

definition firstUUID :: string where
  "firstUUID = ''00000000-0000-0000-0000-000000000001''"

definition secondUUID :: string where
  "secondUUID = ''00000000-0000-0000-0000-000000000002''"

text \<open>The flags of the first end-to-end scenario of the specification.\<close>

definition scenarioFlags :: Flags where
  "scenarioFlags =
    \<lparr>deviceName = ''dev1'', deviceID = ''123e4567-e89b-12d3-a456-426614174000'',
     userID = ''9b2f7c1e-5a4d-4e8b-8c3a-0f1e2d3c4b5a'', operatingSystem = ''Linux'',
     useGPUs = ''false'', architecture = ''x86_64'', beta = False\<rparr>"

text \<open>No flag given.\<close>

definition noFlags :: Flags where
  "noFlags = \<lparr>deviceName = [], deviceID = [], userID = [], operatingSystem = [],
              useGPUs = [], architecture = [], beta = False\<rparr>"

text \<open>A cache as a completed run writes it.\<close>

definition writtenCache :: cache where
  "writtenCache =
    [''device_name'' \<mapsto> JString ''dev1'',
     ''device_id'' \<mapsto> JString ''123e4567-e89b-12d3-a456-426614174000'',
     ''user_id'' \<mapsto> JString ''9b2f7c1e-5a4d-4e8b-8c3a-0f1e2d3c4b5a'',
     ''operating_system'' \<mapsto> JString ''Linux'',
     ''usegpus'' \<mapsto> JString ''false'']"

text \<open>Arguments as the resolver leaves them on a Linux and on a macOS host.\<close>

definition linuxArgs :: Arguments where
  "linuxArgs =
    \<lparr>DeviceName = ''dev1'', DeviceID = ''123e4567-e89b-12d3-a456-426614174000'',
     UserID = ''9b2f7c1e-5a4d-4e8b-8c3a-0f1e2d3c4b5a'', OperatingSystem = ''Linux'',
     UseGPUs = ''false'', Architecture = ''x86_64'', Beta = False\<rparr>"

definition macArgs :: Arguments where
  "macArgs = linuxArgs\<lparr>OperatingSystem := ''macOS'', Architecture := ''arm64''\<rparr>"

text \<open>
  Two images of the launcher: version 0.9, and version 0.10 made a month later; and a host
  that holds both.
\<close>

definition launch09 :: image where
  "launch09 = \<lparr>Repository = ''ionetcontainers/io-launch'', Tag = ''v0.9'',
               CreatedAt = ''2024-05-01 10:00:00 +0000 UTC'', ID = ''sha256:0909''\<rparr>"

definition launch10 :: image where
  "launch10 = \<lparr>Repository = ''ionetcontainers/io-launch'', Tag = ''v0.10'',
               CreatedAt = ''2024-06-01 10:00:00 +0000 UTC'', ID = ''sha256:1010''\<rparr>"

definition twoVersionsWorld :: world where
  "twoVersionsWorld = quietWorld\<lparr>dockerImageLs := (\<lambda>_. Some [launch10, launch09])\<rparr>"

text \<open>A macOS host on Apple silicon.\<close>

definition macWorld :: world where
  "macWorld = quietWorld\<lparr>unameM := Some (''arm64'' @ [CHR 0x0A]), sysctlBrand := True,
                         sysctlMachdep := Some (''{machdep.cpu.core_count: 8}'' @ [CHR 0x0A])\<rparr>"

section \<open>The Command Builder\<close>

lemma if_append_right: "(if b then c @ x else c) = c @ (if b then x else [])"
  by simp

lemma constructDockerCommand_parts:
  "constructDockerCommand w args arch =
    (if OperatingSystem args = ''macOS''
     then (case sysctlMachdep w of
             None \<Rightarrow> Inl LogFatal
           | Some macInfo \<Rightarrow> Inr (fixedPart arch @ platformPart arch @ identityPart args
                                  @ macPart macInfo @ imagePart args))
     else Inr (fixedPart arch @ platformPart arch @ identityPart args @ imagePart args))"
  unfolding constructDockerCommand_def Let_def if_append_right fixedPart_def platformPart_def
    identityPart_def macPart_def imagePart_def envFlag_def
  by (simp only: append_assoc append_Cons append_Nil)

lemma envFlag_tokens: "t \<in> set (envFlag name v) \<Longrightarrow> t = ''-e'' \<or> CHR ''='' \<in> set t"
  by (auto simp: envFlag_def split: if_splits)

lemma identityPart_tokens: "t \<in> set (identityPart args) \<Longrightarrow> t = ''-e'' \<or> CHR ''='' \<in> set t"
  unfolding identityPart_def set_append Un_iff
  by (elim disjE) (erule envFlag_tokens)+

lemma platform_not_in_identityPart: "''--platform'' \<notin> set (identityPart args)"
proof
  assume "''--platform'' \<in> set (identityPart args)"
  from identityPart_tokens [OF this] show False by simp
qed

lemma image_not_in_identityPart: "isImageRef t \<Longrightarrow> t \<notin> set (identityPart args)"
proof
  assume "isImageRef t" "t \<in> set (identityPart args)"
  from identityPart_tokens [OF this(2)] this(1) show False
    unfolding isImageRef_def by (elim disjE) simp_all
qed

lemma platform_not_in_fixedPart: "''--platform'' \<notin> set (fixedPart arch)"
  by (simp add: fixedPart_def)

lemma platform_not_in_macPart: "''--platform'' \<notin> set (macPart m)"
  by (simp add: macPart_def)

lemma platform_not_in_imagePart: "''--platform'' \<notin> set (imagePart args)"
  by (simp add: imagePart_def)

lemma image_not_in_fixedPart: "isImageRef t \<Longrightarrow> t \<notin> set (fixedPart arch)"
  by (auto simp: fixedPart_def isImageRef_def)

lemma image_not_in_platformPart: "isImageRef t \<Longrightarrow> t \<notin> set (platformPart arch)"
  by (auto simp: platformPart_def isImageRef_def)

lemma image_not_in_macPart: "isImageRef t \<Longrightarrow> t \<notin> set (macPart m)"
  by (auto simp: macPart_def isImageRef_def)

lemma filter_none: "(\<And>t. P t \<Longrightarrow> t \<notin> set xs) \<Longrightarrow> filter P xs = []"
  by (induction xs) auto

lemma imagePart_image:
  "filter isImageRef (imagePart args) =
     [if Beta args then ''ionetcontainers/io-launch-beta:v0.1'' else ''ionetcontainers/io-launch:v0.1'']"
  by (simp add: imagePart_def isImageRef_def)

lemma imagePart_last:
  "imagePart args \<noteq> [] \<and> last (imagePart args) =
     (if Beta args then ''ionetcontainers/io-launch-beta:v0.1'' else ''ionetcontainers/io-launch:v0.1'')"
  by (simp add: imagePart_def)

lemma take_fixedPart: "take 9 (fixedPart arch @ rest) = fixedPart arch"
  by (simp add: fixedPart_def)

text \<open>
  Claim C10. Whatever the arguments and the architecture, the builder either aborts (only on
  macOS, when the \<open>sysctl\<close> pipeline fails) or returns a command that starts with the seven
  fixed tokens followed by \<open>-e ARCH=<architecture>\<close>, whose last token is the beta image
  when \<open>Beta\<close> is set and the stable image otherwise, and in which no other token is one
  of the two image references.
\<close>

theorem command_prefix_and_image:
  "case constructDockerCommand w args arch of
     Inl s \<Rightarrow> s = LogFatal \<and> OperatingSystem args = ''macOS'' \<and> sysctlMachdep w = None
   | Inr cmd \<Rightarrow>
       take 9 cmd = [''docker'', ''run'', ''-d'', ''-v'', ''/var/run/docker.sock:/var/run/docker.sock'',
                     ''--network'', ''host'', ''-e'', ''ARCH='' @ arch]
       \<and> last cmd = (if Beta args then ''ionetcontainers/io-launch-beta:v0.1''
                     else ''ionetcontainers/io-launch:v0.1'')
       \<and> filter isImageRef cmd = [last cmd]"
proof -
  let ?img = "if Beta args then ''ionetcontainers/io-launch-beta:v0.1''
              else ''ionetcontainers/io-launch:v0.1''"
  have shape: "take 9 (fixedPart arch @ platformPart arch @ identityPart args @ mid @ imagePart args)
                = fixedPart arch
             \<and> last (fixedPart arch @ platformPart arch @ identityPart args @ mid @ imagePart args) = ?img
             \<and> filter isImageRef (fixedPart arch @ platformPart arch @ identityPart args @ mid @ imagePart args) = [?img]"
    if mid: "\<And>t. isImageRef t \<Longrightarrow> t \<notin> set mid" for mid
  proof (intro conjI)
    show "take 9 (fixedPart arch @ platformPart arch @ identityPart args @ mid @ imagePart args) = fixedPart arch"
      by (rule take_fixedPart)
    show "last (fixedPart arch @ platformPart arch @ identityPart args @ mid @ imagePart args) = ?img"
      using imagePart_last [of args] by (simp only: last_append) simp
    have "filter isImageRef (fixedPart arch) = []" "filter isImageRef (platformPart arch) = []"
      "filter isImageRef (identityPart args) = []" "filter isImageRef mid = []"
      by (rule filter_none, erule image_not_in_fixedPart image_not_in_platformPart
            image_not_in_identityPart mid)+
    then show "filter isImageRef (fixedPart arch @ platformPart arch @ identityPart args @ mid @ imagePart args) = [?img]"
      by (simp only: filter_append imagePart_image append_Nil)
  qed
  show ?thesis
  proof (cases "OperatingSystem args = ''macOS''")
    case False
    with shape [of "[]"] show ?thesis
      by (simp add: constructDockerCommand_parts fixedPart_def)
  next
    case True
    show ?thesis
    proof (cases "sysctlMachdep w")
      case None
      with True show ?thesis by (simp add: constructDockerCommand_parts)
    next
      case (Some m)
      with True shape [of "macPart m", OF image_not_in_macPart] show ?thesis
        by (simp add: constructDockerCommand_parts fixedPart_def)
    qed
  qed
qed

text \<open>
  Claim C6. In every command the builder returns, the tokens \<open>--platform linux/amd64\<close>
  stand next to each other if and only if the architecture is not exactly \<open>x86_64\<close>; the
  token \<open>--platform\<close> alone occurs under the same condition. The builder returns no
  command only on macOS when the \<open>sysctl\<close> pipeline fails.
\<close>

theorem platform_flag_iff_not_x86_64:
  "case constructDockerCommand w args arch of
     Inl s \<Rightarrow> OperatingSystem args = ''macOS'' \<and> sysctlMachdep w = None
   | Inr cmd \<Rightarrow>
       (sublist [''--platform'', ''linux/amd64''] cmd \<longleftrightarrow> arch \<noteq> ''x86_64'')
       \<and> (''--platform'' \<in> set cmd \<longleftrightarrow> arch \<noteq> ''x86_64'')"
proof -
  have shape:
    "(sublist [''--platform'', ''linux/amd64'']
        (fixedPart arch @ platformPart arch @ identityPart args @ mid @ imagePart args)
        \<longleftrightarrow> arch \<noteq> ''x86_64'')
     \<and> (''--platform'' \<in> set (fixedPart arch @ platformPart arch @ identityPart args @ mid
                                  @ imagePart args) \<longleftrightarrow> arch \<noteq> ''x86_64'')"
    if mid: "''--platform'' \<notin> set mid" for mid
  proof (cases "arch = ''x86_64''")
    case True
    have absent: "''--platform'' \<notin> set (fixedPart arch @ platformPart arch @ identityPart args @ mid
                                         @ imagePart args)"
      using mid platform_not_in_fixedPart [of arch] platform_not_in_identityPart [of args]
        platform_not_in_imagePart [of args] True
      by (simp add: platformPart_def)
    have "\<not> sublist [''--platform'', ''linux/amd64'']
             (fixedPart arch @ platformPart arch @ identityPart args @ mid @ imagePart args)"
    proof
      assume "sublist [''--platform'', ''linux/amd64'']
                (fixedPart arch @ platformPart arch @ identityPart args @ mid @ imagePart args)"
      from set_mono_sublist [OF this] absent show False by simp
    qed
    with absent True show ?thesis by simp
  next
    case False
    then have p: "platformPart arch = [''--platform'', ''linux/amd64'']"
      by (simp add: platformPart_def)
    have "sublist [''--platform'', ''linux/amd64'']
            (fixedPart arch @ [''--platform'', ''linux/amd64''] @ (identityPart args @ mid @ imagePart args))"
      by (rule sublist_appendI)
    with False show ?thesis by (simp add: p)
  qed
  show ?thesis
  proof (cases "OperatingSystem args = ''macOS''")
    case False
    with shape [of "[]"] show ?thesis
      by (simp add: constructDockerCommand_parts)
  next
    case True
    show ?thesis
    proof (cases "sysctlMachdep w")
      case None
      with True show ?thesis by (simp add: constructDockerCommand_parts)
    next
      case (Some m)
      with True shape [of "macPart m", OF platform_not_in_macPart] show ?thesis
        by (simp add: constructDockerCommand_parts)
    qed
  qed
qed

text \<open>
  Claim C5, as stated, fails: on macOS the builder runs the \<open>sysctl\<close> pipeline of line 159
  and puts its output into the command, so the same arguments and architecture give
  different commands on hosts whose \<open>sysctl\<close> output differs.
\<close>

theorem builder_reads_sysctl_on_macOS:
  "constructDockerCommand (quietWorld\<lparr>sysctlMachdep := Some ''{machdep.cpu.core_count: 8}''\<rparr>)
       macArgs ''arm64''
     \<noteq> constructDockerCommand (quietWorld\<lparr>sysctlMachdep := Some ''{machdep.cpu.core_count: 10}''\<rparr>)
       macArgs ''arm64''"
  by code_simp

text \<open>
  Claim C5, amended. The command depends on nothing but the arguments, the architecture
  and, when the operating system is macOS, the outcome of the \<open>sysctl\<close> pipeline: two
  worlds that agree on that outcome (or any two worlds, off macOS) give the same result.
\<close>

theorem builder_depends_only_on_inputs_and_sysctl:
  "(OperatingSystem args = ''macOS'' \<longrightarrow> sysctlMachdep w = sysctlMachdep w')
     \<Longrightarrow> constructDockerCommand w args arch = constructDockerCommand w' args arch"
  by (simp add: constructDockerCommand_parts)

text \<open>
  The amended claim C5 at two pairs of worlds: a Linux run in worlds that differ in the
  \<open>sysctl\<close> output, and a macOS run in worlds that agree on it and differ elsewhere.
\<close>

theorem builder_depends_only_on_inputs_and_sysctl_witness:
  "constructDockerCommand quietWorld linuxArgs ''x86_64''
     = constructDockerCommand
         (quietWorld\<lparr>sysctlMachdep := Some ''{machdep.cpu.core_count: 8}'', dockerRunOk := False\<rparr>)
         linuxArgs ''x86_64''
   \<and> constructDockerCommand (quietWorld\<lparr>sysctlMachdep := Some ''{machdep.cpu.core_count: 8}''\<rparr>)
         macArgs ''arm64''
     = constructDockerCommand
         (quietWorld\<lparr>sysctlMachdep := Some ''{machdep.cpu.core_count: 8}'', stdin := [''x''],
                      dockerRunOk := False\<rparr>)
         macArgs ''arm64''"
proof -
  have a: "OperatingSystem linuxArgs \<noteq> ''macOS''" by (simp add: linuxArgs_def)
  have b: "sysctlMachdep (quietWorld\<lparr>sysctlMachdep := Some ''{machdep.cpu.core_count: 8}''\<rparr>)
         = sysctlMachdep (quietWorld\<lparr>sysctlMachdep := Some ''{machdep.cpu.core_count: 8}'',
                            stdin := [''x''], dockerRunOk := False\<rparr>)"
    by simp
  show ?thesis
    using builder_depends_only_on_inputs_and_sysctl [of linuxArgs quietWorld
                "quietWorld\<lparr>sysctlMachdep := Some ''{machdep.cpu.core_count: 8}'', dockerRunOk := False\<rparr>"
                "''x86_64''"]
      builder_depends_only_on_inputs_and_sysctl [of macArgs "quietWorld\<lparr>sysctlMachdep := Some ''{machdep.cpu.core_count: 8}''\<rparr>"
             "quietWorld\<lparr>sysctlMachdep := Some ''{machdep.cpu.core_count: 8}'', stdin := [''x''],
                      dockerRunOk := False\<rparr>" "''arm64''"]
      a b
    by blast
qed

section \<open>Sequencing\<close>

lemma andThen_Inl [simp]: "andThen (es, Inl s) k = (es, Inl s)"
  by (simp add: andThen_def)

lemma andThen_Inr [simp]: "andThen (es, Inr a) k = (es @ fst (k a), snd (k a))"
  by (simp add: andThen_def split: prod.splits)

lemma andThen_cases:
  obtains (stop) es s where "m = (es, Inl s)" "andThen m k = (es, Inl s)"
  | (continue) es a where "m = (es, Inr a)" "andThen m k = (es @ fst (k a), snd (k a))"
proof (cases m)
  case (Pair es r)
  then show ?thesis by (cases r) (auto intro: that)
qed

lemma andThen_Inr_iff:
  "andThen m k = (es, Inr b) \<longleftrightarrow>
     (\<exists>es1 a es2. m = (es1, Inr a) \<and> k a = (es2, Inr b) \<and> es = es1 @ es2)"
  by (cases m k rule: andThen_cases) (auto simp: prod_eq_iff)

lemma events_andThen:
  "list_all P (fst m) \<Longrightarrow> (\<And>a. list_all P (fst (k a))) \<Longrightarrow> list_all P (fst (andThen m k))"
  by (cases m k rule: andThen_cases) auto

lemma noEarly_andThen:
  "snd m \<noteq> Inl EarlyReturn \<Longrightarrow> (\<And>a. snd (k a) \<noteq> Inl EarlyReturn)
     \<Longrightarrow> snd (andThen m k) \<noteq> Inl EarlyReturn"
  by (cases m k rule: andThen_cases) auto

lemma quietEnd_append: "list_all harmless es \<Longrightarrow> quietEnd es' \<Longrightarrow> quietEnd (es @ es')"
  by (auto simp: quietEnd_def)

lemma quietly_andThen:
  "list_all harmless (fst m) \<Longrightarrow> quietly m \<Longrightarrow> (\<And>a. quietly (k a)) \<Longrightarrow> quietly (andThen m k)"
  by (cases m k rule: andThen_cases) (auto simp: quietly_def intro: quietEnd_append)

lemma quietly_noEarly: "snd m \<noteq> Inl EarlyReturn \<Longrightarrow> quietly m"
  by (simp add: quietly_def)

section \<open>The prompt loop\<close>


lemma promptLoop_read_failure:
  "again v \<Longrightarrow> scanln inp = None
     \<Longrightarrow> promptLoop again invalid prompt complaint v inp = ([Print prompt], Inl EarlyReturn)"
  by (cases inp) (auto simp: scanln_def split: option.splits)

lemma promptLoop_events:
  "P (Print prompt) \<Longrightarrow> P (Print complaint)
     \<Longrightarrow> list_all P (fst (promptLoop again invalid prompt complaint v inp))"
proof (induction inp arbitrary: v)
  case Nil
  then show ?case by simp
next
  case (Cons textLine rest)
  then show ?case by (simp split: option.splits)
qed

lemma promptLoop_stops:
  "snd (promptLoop again invalid prompt complaint v inp) = Inl s
     \<Longrightarrow> s = EarlyReturn \<and> fst (promptLoop again invalid prompt complaint v inp) \<noteq> []
         \<and> last (fst (promptLoop again invalid prompt complaint v inp)) = Print prompt"
proof (induction inp arbitrary: v)
  case Nil
  then show ?case by (simp split: if_splits)
next
  case (Cons textLine rest)
  then show ?case by (auto split: if_splits option.splits)
qed

lemma promptLoop_result:
  "snd (promptLoop again invalid prompt complaint v inp) = Inr (v', inp') \<Longrightarrow> \<not> again v'"
proof (induction inp arbitrary: v)
  case Nil
  then show ?case by (simp split: if_splits)
next
  case (Cons textLine rest)
  then show ?case by (auto split: if_splits option.splits)
qed

lemma promptLoop_quietly:
  "prompt \<in> set promptTexts \<Longrightarrow> quietly (promptLoop again invalid prompt complaint v inp)"
  unfolding quietly_def quietEnd_def
  using promptLoop_stops [of again invalid prompt complaint v inp EarlyReturn]
    promptLoop_events [of harmless prompt complaint again invalid v inp]
  by auto

section \<open>Stage by stage: what is emitted, and how a stage can end\<close>

lemma events_case_prod:
  "(\<And>a b. list_all P (fst (f a b))) \<Longrightarrow> list_all P (fst (case x of (a, b) \<Rightarrow> f a b))"
  by (cases x) simp

lemma noEarly_case_prod:
  "(\<And>a b. snd (f a b) \<noteq> Inl EarlyReturn) \<Longrightarrow> snd (case x of (a, b) \<Rightarrow> f a b) \<noteq> Inl EarlyReturn"
  by (cases x) simp

lemma quietly_case_prod:
  "(\<And>a b. quietly (f a b)) \<Longrightarrow> quietly (case x of (a, b) \<Rightarrow> f a b)"
  by (cases x) simp

lemma quietly_result [simp]: "quietly (es, Inr a)"
  by (simp add: quietly_def)

subsection \<open>Before the prompts\<close>

lemma requireDocker_events: "(\<And>s. last s = CHR 0x0A \<Longrightarrow> P (Print s)) \<Longrightarrow> list_all P (fst (requireDocker up))"
  by (simp add: requireDocker_def checkDocker_def Println_def)

lemma requireDocker_noEarly: "snd (requireDocker up) \<noteq> Inl EarlyReturn"
  by (simp add: requireDocker_def checkDocker_def)

lemma stopRunningContainers_events:
  "(\<And>s. last s = CHR 0x0A \<Longrightarrow> P (Print s)) \<Longrightarrow> (\<And>c. P (DockerStop c)) \<Longrightarrow> (\<And>c. P (DockerKill c))
     \<Longrightarrow> list_all P (fst (stopRunningContainers w))"
  by (simp add: stopRunningContainers_def Let_def Println_def split: option.splits)

lemma stopRunningContainers_noEarly: "snd (stopRunningContainers w) \<noteq> Inl EarlyReturn"
  by (simp add: stopRunningContainers_def Let_def split: option.splits)

lemma removeDockerImage_noEarly: "snd (removeDockerImage w i) \<noteq> Inl EarlyReturn"
  by (simp add: removeDockerImage_def)

lemma removeImages_events: "(\<And>i. P (DockerRmi i)) \<Longrightarrow> list_all P (fst (removeImages w ids))"
  by (induction ids) (auto intro!: events_andThen simp: removeDockerImage_def)

lemma removeImages_noEarly: "snd (removeImages w ids) \<noteq> Inl EarlyReturn"
proof (induction ids)
  case Nil
  show ?case by simp
next
  case (Cons i ids)
  show ?case
    unfolding removeImages.simps
    by (rule noEarly_andThen) (rule removeDockerImage_noEarly Cons)+
qed

lemma pruneRepo_events:
  "(\<And>s. last s = CHR 0x0A \<Longrightarrow> P (Print s)) \<Longrightarrow> (\<And>i. P (DockerRmi i)) \<Longrightarrow> list_all P (fst (pruneRepo w r))"
  unfolding pruneRepo_def
  by (auto split: sum.splits intro!: events_andThen removeImages_events)

lemma getDockerImageIDsSorted_noEarly: "getDockerImageIDsSorted w r \<noteq> Inl EarlyReturn"
  by (simp add: getDockerImageIDsSorted_def split: option.splits)

lemma pruneRepo_noEarly: "snd (pruneRepo w r) \<noteq> Inl EarlyReturn"
proof (cases "getDockerImageIDsSorted w r")
  case (Inl s)
  with getDockerImageIDsSorted_noEarly [of w r] show ?thesis
    by (simp add: pruneRepo_def)
next
  case (Inr ids)
  have "snd (andThen ([Print (''removing stale images: '' @ r @ [CHR 0x0A])], Inr ())
               (\<lambda>_. removeImages w (drop 1 ids))) \<noteq> Inl EarlyReturn"
    by (rule noEarly_andThen) (simp_all add: removeImages_noEarly)
  with Inr show ?thesis by (simp add: pruneRepo_def)
qed

lemma pruneRepos_events:
  "(\<And>s. last s = CHR 0x0A \<Longrightarrow> P (Print s)) \<Longrightarrow> (\<And>i. P (DockerRmi i)) \<Longrightarrow> list_all P (fst (pruneRepos w rs))"
  by (induction rs) (auto intro!: events_andThen pruneRepo_events)

lemma pruneRepos_noEarly: "snd (pruneRepos w rs) \<noteq> Inl EarlyReturn"
proof (induction rs)
  case Nil
  show ?case by simp
next
  case (Cons r rs)
  show ?case
    unfolding pruneRepos.simps
    by (rule noEarly_andThen) (rule pruneRepo_noEarly Cons)+
qed

subsection \<open>The prompts\<close>

lemma promptDeviceName_events:
  "P (Print deviceNamePrompt) \<Longrightarrow> (\<And>s. last s = CHR 0x0A \<Longrightarrow> P (Print s))
     \<Longrightarrow> list_all P (fst (promptDeviceName args inp))"
  unfolding promptDeviceName_def
  by (intro events_andThen promptLoop_events events_case_prod) simp_all


lemma promptDeviceID_events:
  "P (Print deviceIDPrompt) \<Longrightarrow> (\<And>s. last s = CHR 0x0A \<Longrightarrow> P (Print s))
     \<Longrightarrow> list_all P (fst (promptDeviceID w args inp))"
  unfolding promptDeviceID_def invalidUUIDText_def
  by (intro events_andThen promptLoop_events events_case_prod) simp_all

lemma promptUserID_events:
  "P (Print userIDPrompt) \<Longrightarrow> (\<And>s. last s = CHR 0x0A \<Longrightarrow> P (Print s))
     \<Longrightarrow> list_all P (fst (promptUserID w args inp))"
  unfolding promptUserID_def invalidUUIDText_def
  by (intro events_andThen promptLoop_events events_case_prod) simp_all

lemma promptOperatingSystem_events:
  "P (Print osPrompt) \<Longrightarrow> (\<And>s. last s = CHR 0x0A \<Longrightarrow> P (Print s))
     \<Longrightarrow> list_all P (fst (promptOperatingSystem args inp))"
  unfolding promptOperatingSystem_def
  by (intro events_andThen promptLoop_events events_case_prod) simp_all

lemma resolveArchitecture_events: "fst (resolveArchitecture w args) = []"
  by (simp add: resolveArchitecture_def split: sum.splits)

lemma resolveArchitecture_noEarly: "snd (resolveArchitecture w args) \<noteq> Inl EarlyReturn"
  by (auto simp: resolveArchitecture_def getPlatformArchitecture_def split: sum.splits option.splits)

lemma resolveUseGPUs_events:
  "P (Print gpuPrompt) \<Longrightarrow> (\<And>s. last s = CHR 0x0A \<Longrightarrow> P (Print s))
     \<Longrightarrow> list_all P (fst (resolveUseGPUs args inp))"
  unfolding resolveUseGPUs_def
  by (auto intro!: events_andThen promptLoop_events events_case_prod simp: Println_def)

lemma in_promptTexts [simp]:
  "deviceNamePrompt \<in> set promptTexts" "deviceIDPrompt \<in> set promptTexts"
  "userIDPrompt \<in> set promptTexts" "osPrompt \<in> set promptTexts" "gpuPrompt \<in> set promptTexts"
  by (simp_all add: promptTexts_def)

lemma promptDeviceName_quietly: "quietly (promptDeviceName args inp)"
  unfolding promptDeviceName_def
  by (intro quietly_andThen promptLoop_quietly promptLoop_events quietly_case_prod) simp_all

lemma promptDeviceID_quietly: "quietly (promptDeviceID w args inp)"
  unfolding promptDeviceID_def
  by (intro quietly_andThen promptLoop_quietly promptLoop_events quietly_case_prod) simp_all

lemma promptUserID_quietly: "quietly (promptUserID w args inp)"
  unfolding promptUserID_def
  by (intro quietly_andThen promptLoop_quietly promptLoop_events quietly_case_prod) simp_all

lemma promptOperatingSystem_quietly: "quietly (promptOperatingSystem args inp)"
  unfolding promptOperatingSystem_def
  by (intro quietly_andThen promptLoop_quietly promptLoop_events quietly_case_prod) simp_all

lemma resolveUseGPUs_quietly: "quietly (resolveUseGPUs args inp)"
  unfolding resolveUseGPUs_def
  by (auto intro!: quietly_andThen promptLoop_quietly promptLoop_events quietly_case_prod)

lemma resolveArguments_events:
  assumes "list_all P (fst (promptDeviceName args inp))"
    and "P (Print deviceIDPrompt)" "P (Print userIDPrompt)" "P (Print osPrompt)"
    and "\<And>a i. list_all P (fst (resolveUseGPUs a i))"
    and "\<And>s. last s = CHR 0x0A \<Longrightarrow> P (Print s)"
  shows "list_all P (fst (resolveArguments w args inp))"
  unfolding resolveArguments_def
  by (intro events_andThen events_case_prod assms promptDeviceID_events promptUserID_events
        promptOperatingSystem_events)
     (simp_all add: resolveArchitecture_events)

lemma resolveArguments_harmless: "list_all harmless (fst (resolveArguments w args inp))"
  by (rule resolveArguments_events)
     (auto intro!: promptDeviceName_events resolveUseGPUs_events)

lemma resolveArguments_quietly: "quietly (resolveArguments w args inp)"
  unfolding resolveArguments_def
  by (intro quietly_andThen quietly_case_prod promptDeviceName_quietly promptDeviceID_quietly
        promptUserID_quietly promptOperatingSystem_quietly resolveUseGPUs_quietly
        quietly_noEarly resolveArchitecture_noEarly
        promptDeviceName_events promptDeviceID_events promptUserID_events
        promptOperatingSystem_events resolveUseGPUs_events)
     (simp_all add: resolveArchitecture_events)

subsection \<open>After the resolver\<close>

lemma gpuChecks_events:
  "(\<And>s. last s = CHR 0x0A \<Longrightarrow> P (Print s)) \<Longrightarrow> list_all P (fst (gpuChecks w args))"
  by (simp add: gpuChecks_def checkGPUAvailability_def checkNvidiaCTK_def Println_def
      split: option.splits)

lemma gpuChecks_noEarly: "snd (gpuChecks w args) \<noteq> Inl EarlyReturn"
  by (simp add: gpuChecks_def checkGPUAvailability_def checkNvidiaCTK_def split: option.splits)

lemma validateChoices_events:
  "(\<And>s. last s = CHR 0x0A \<Longrightarrow> P (Print s)) \<Longrightarrow> list_all P (fst (validateChoices args))"
  by (simp add: validateChoices_def)

lemma validateChoices_noEarly: "snd (validateChoices args) \<noteq> Inl EarlyReturn"
  by (simp add: validateChoices_def)

lemma macSiliconCheck_events:
  "(\<And>s. last s = CHR 0x0A \<Longrightarrow> P (Print s)) \<Longrightarrow> list_all P (fst (macSiliconCheck w args))"
  by (simp add: macSiliconCheck_def Println_def)

lemma macSiliconCheck_noEarly: "snd (macSiliconCheck w args) \<noteq> Inl EarlyReturn"
  by (simp add: macSiliconCheck_def)

lemma constructDockerCommand_noEarly: "constructDockerCommand w args arch \<noteq> Inl EarlyReturn"
  by (simp add: constructDockerCommand_parts split: option.splits)


lemma launch_noEarly: "snd (launch w args) \<noteq> Inl EarlyReturn"
  unfolding launch_def
  by (intro noEarly_andThen gpuChecks_noEarly requireDocker_noEarly validateChoices_noEarly
        macSiliconCheck_noEarly)
     (simp_all add: saveCache_def runCommand_def constructDockerCommand_noEarly)

section \<open>Whole runs\<close>

lemma beforePrompts_events:
  "(\<And>s. last s = CHR 0x0A \<Longrightarrow> P (Print s)) \<Longrightarrow> (\<And>c. P (DockerStop c)) \<Longrightarrow> (\<And>c. P (DockerKill c))
     \<Longrightarrow> (\<And>i. P (DockerRmi i)) \<Longrightarrow> list_all P (fst (beforePrompts w))"
  unfolding beforePrompts_def
  by (intro events_andThen requireDocker_events stopRunningContainers_events pruneRepos_events)

lemma beforePrompts_noEarly: "snd (beforePrompts w) \<noteq> Inl EarlyReturn"
  unfolding beforePrompts_def
  by (intro noEarly_andThen requireDocker_noEarly stopRunningContainers_noEarly
        pruneRepos_noEarly)

text \<open>\<open>main\<close> once the cache is loaded: the trace and the status of its chain of steps.\<close>

lemma main_loaded:
  assumes "cacheFile w = Some cache"
  shows "main fl w =
    (fst (andThen (beforePrompts w) (\<lambda>_.
              andThen (resolveArguments w (cacheFallback fl cache) (stdin w)) (\<lambda>args.
              launch w args))),
     case snd (andThen (beforePrompts w) (\<lambda>_.
              andThen (resolveArguments w (cacheFallback fl cache) (stdin w)) (\<lambda>args.
              launch w args))) of Inl s \<Rightarrow> s | Inr _ \<Rightarrow> Finished)"
    (is "_ = (fst ?run, _)")
proof (cases ?run)
  case (Pair es r)
  with assms show ?thesis
    by (cases r) (simp_all add: main_def loadCache_def)
qed

lemma main_not_loaded: "cacheFile w = None \<Longrightarrow> main fl w = ([], LogFatal)"
  by (simp add: main_def loadCache_def)


lemma main_quietly: "snd (main fl w) = EarlyReturn \<Longrightarrow> quietEnd (fst (main fl w))"
proof (cases "cacheFile w")
  case None
  assume "snd (main fl w) = EarlyReturn"
  with None show ?thesis by (simp add: main_not_loaded)
next
  case (Some cache)
  assume early: "snd (main fl w) = EarlyReturn"
  let ?run = "andThen (beforePrompts w) (\<lambda>_.
              andThen (resolveArguments w (cacheFallback fl cache) (stdin w)) (\<lambda>args.
              launch w args))"
  have "quietly ?run"
    by (intro quietly_andThen quietly_noEarly beforePrompts_noEarly launch_noEarly
          resolveArguments_quietly resolveArguments_harmless beforePrompts_events)
       simp_all
  moreover from early have "snd ?run = Inl EarlyReturn"
    unfolding main_loaded [OF Some] by (simp split: sum.splits)
  ultimately show ?thesis
    unfolding main_loaded [OF Some] by (simp add: quietly_def)
qed

section \<open>A read that fails\<close>

text \<open>
  The loop on an input that starts with lines it reads and rejects, and then comes to a
  read that fails: it gives up.
\<close>

lemma promptLoop_gives_up:
  "again v \<Longrightarrow> list_all (unacceptable again) textLines \<Longrightarrow> scanln rest = None
     \<Longrightarrow> snd (promptLoop again invalid prompt complaint v (textLines @ rest)) = Inl EarlyReturn"
proof (induction textLines arbitrary: v)
  case Nil
  then show ?case by (simp add: promptLoop_read_failure)
next
  case (Cons textLine textLines)
  from Cons.prems(2) have more: "list_all (unacceptable again) textLines"
    and "unacceptable again textLine" by simp_all
  then obtain tok where tok: "scanToken textLine = Some tok" "again tok"
    by (cases "scanToken textLine") (simp_all add: unacceptable_def)
  from Cons.IH [OF tok(2) more Cons.prems(3)] Cons.prems(1) tok(1) show ?case
    by simp
qed

lemma andThen_stopped: "snd m = Inl s \<Longrightarrow> andThen m k = (fst m, Inl s)"
  by (cases m) simp

lemma wrapped_gives_up:
  assumes "again v" "list_all (unacceptable again) textLines" "scanln rest = None"
  shows "snd (andThen (promptLoop again invalid prompt complaint v (textLines @ rest)) k)
           = Inl EarlyReturn"
    and "fst (andThen (promptLoop again invalid prompt complaint v (textLines @ rest)) k) \<noteq> []"
    and "last (fst (andThen (promptLoop again invalid prompt complaint v (textLines @ rest)) k))
           = Print prompt"
  using promptLoop_gives_up [OF assms, of invalid prompt complaint]
    promptLoop_stops [of again invalid prompt complaint v "textLines @ rest" EarlyReturn]
  by (simp_all add: andThen_stopped)

text \<open>A resolver that gives up makes \<open>main\<close> return, silently.\<close>

lemma main_returns:
  assumes "cacheFile w = Some cache" and "beforePrompts w = (es0, Inr ())"
    and "resolveArguments w (cacheFallback fl cache) (stdin w) = (es, Inl EarlyReturn)"
    and "es \<noteq> []" and "last es = Print prompt"
  shows "silentReturn prompt (main fl w)"
proof -
  have "list_all harmless (fst (beforePrompts w))"
    by (rule beforePrompts_events) simp_all
  moreover have "list_all harmless (fst (resolveArguments w (cacheFallback fl cache) (stdin w)))"
    by (rule resolveArguments_harmless)
  ultimately show ?thesis
    using assms(2-5) unfolding main_loaded [OF assms(1)] silentReturn_def by simp
qed

lemma gives_up_at_device_name:
  assumes "cacheFile w = Some cache" and "beforePrompts w = (es0, Inr ())"
    and "DeviceName (cacheFallback fl cache) = []"
    and "stdin w = textLines @ rest" and "list_all (unacceptable (\<lambda>v. v = [])) textLines"
    and "scanln rest = None"
  shows "silentReturn deviceNamePrompt (main fl w)"
proof -
  let ?stage = "promptDeviceName (cacheFallback fl cache) (stdin w)"
  have stop: "snd ?stage = Inl EarlyReturn" "fst ?stage \<noteq> []"
    "last (fst ?stage) = Print deviceNamePrompt"
    unfolding promptDeviceName_def assms(4)
    by (rule wrapped_gives_up [of "\<lambda>v. v = []" "DeviceName (cacheFallback fl cache)", OF assms(3,5,6)])+
  have "resolveArguments w (cacheFallback fl cache) (stdin w) = (fst ?stage, Inl EarlyReturn)"
    by (simp add: resolveArguments_def andThen_stopped [OF stop(1)])
  then show ?thesis
    by (rule main_returns [OF assms(1,2)]) (rule stop(2) stop(3))+
qed

lemma gives_up_at_device_ID:
  assumes "cacheFile w = Some cache" and "beforePrompts w = (es0, Inr ())"
    and "promptDeviceName (cacheFallback fl cache) (stdin w) = (es1, Inr (args1, inp1))"
    and "DeviceID args1 = [] \<or> \<not> isValidUUID w (DeviceID args1)"
    and "inp1 = textLines @ rest"
    and "list_all (unacceptable (\<lambda>v. v = [] \<or> \<not> isValidUUID w v)) textLines"
    and "scanln rest = None"
  shows "silentReturn deviceIDPrompt (main fl w)"
proof -
  let ?stage = "promptDeviceID w args1 inp1"
  have stop: "snd ?stage = Inl EarlyReturn" "fst ?stage \<noteq> []"
    "last (fst ?stage) = Print deviceIDPrompt"
    unfolding promptDeviceID_def assms(5)
    by (rule wrapped_gives_up [of "\<lambda>v. v = [] \<or> \<not> isValidUUID w v" "DeviceID args1", OF assms(4,6,7)])+
  have "resolveArguments w (cacheFallback fl cache) (stdin w)
          = (es1 @ fst ?stage, Inl EarlyReturn)"
    by (simp add: resolveArguments_def assms(3) andThen_stopped [OF stop(1)])
  then show ?thesis
    by (rule main_returns [OF assms(1,2)]) (simp_all add: stop)
qed

lemma gives_up_at_user_ID:
  assumes "cacheFile w = Some cache" and "beforePrompts w = (es0, Inr ())"
    and "promptDeviceName (cacheFallback fl cache) (stdin w) = (es1, Inr (args1, inp1))"
    and "promptDeviceID w args1 inp1 = (es2, Inr (args2, inp2))"
    and "UserID args2 = [] \<or> \<not> isValidUUID w (UserID args2)"
    and "inp2 = textLines @ rest"
    and "list_all (unacceptable (\<lambda>v. v = [] \<or> \<not> isValidUUID w v)) textLines"
    and "scanln rest = None"
  shows "silentReturn userIDPrompt (main fl w)"
proof -
  let ?stage = "promptUserID w args2 inp2"
  have stop: "snd ?stage = Inl EarlyReturn" "fst ?stage \<noteq> []"
    "last (fst ?stage) = Print userIDPrompt"
    unfolding promptUserID_def assms(6)
    by (rule wrapped_gives_up [of "\<lambda>v. v = [] \<or> \<not> isValidUUID w v" "UserID args2", OF assms(5,7,8)])+
  have "resolveArguments w (cacheFallback fl cache) (stdin w)
          = (es1 @ es2 @ fst ?stage, Inl EarlyReturn)"
    by (simp add: resolveArguments_def assms(3,4) andThen_stopped [OF stop(1)])
  then show ?thesis
    by (rule main_returns [OF assms(1,2)]) (simp_all add: stop)
qed

lemma gives_up_at_operating_system:
  assumes "cacheFile w = Some cache" and "beforePrompts w = (es0, Inr ())"
    and "promptDeviceName (cacheFallback fl cache) (stdin w) = (es1, Inr (args1, inp1))"
    and "promptDeviceID w args1 inp1 = (es2, Inr (args2, inp2))"
    and "promptUserID w args2 inp2 = (es3, Inr (args3, inp3))"
    and "OperatingSystem args3 = [] \<or> \<not> contains validOSChoices (OperatingSystem args3)"
    and "inp3 = textLines @ rest"
    and "list_all (unacceptable (\<lambda>v. v = [] \<or> \<not> contains validOSChoices v)) textLines"
    and "scanln rest = None"
  shows "silentReturn osPrompt (main fl w)"
proof -
  let ?stage = "promptOperatingSystem args3 inp3"
  have stop: "snd ?stage = Inl EarlyReturn" "fst ?stage \<noteq> []"
    "last (fst ?stage) = Print osPrompt"
    unfolding promptOperatingSystem_def assms(7)
    by (rule wrapped_gives_up [of "\<lambda>v. v = [] \<or> \<not> contains validOSChoices v" "OperatingSystem args3", OF assms(6,8,9)])+
  have "resolveArguments w (cacheFallback fl cache) (stdin w)
          = (es1 @ es2 @ es3 @ fst ?stage, Inl EarlyReturn)"
    by (simp add: resolveArguments_def assms(3,4,5) andThen_stopped [OF stop(1)])
  then show ?thesis
    by (rule main_returns [OF assms(1,2)]) (simp_all add: stop)
qed

lemma gives_up_at_GPU:
  assumes "cacheFile w = Some cache" and "beforePrompts w = (es0, Inr ())"
    and "promptDeviceName (cacheFallback fl cache) (stdin w) = (es1, Inr (args1, inp1))"
    and "promptDeviceID w args1 inp1 = (es2, Inr (args2, inp2))"
    and "promptUserID w args2 inp2 = (es3, Inr (args3, inp3))"
    and "promptOperatingSystem args3 inp3 = (es4, Inr (args4, inp4))"
    and "resolveArchitecture w args4 = (es5, Inr args5)"
    and "OperatingSystem args5 \<noteq> ''macOS''" and "UseGPUs args5 = []"
    and "inp4 = textLines @ rest"
    and "list_all (unacceptable (\<lambda>v. v = [] \<or> (v \<noteq> ''true'' \<and> v \<noteq> ''false''))) textLines"
    and "scanln rest = None"
  shows "silentReturn gpuPrompt (main fl w)"
proof -
  let ?stage = "resolveUseGPUs args5 inp4"
  have again: "UseGPUs args5 = [] \<or> (UseGPUs args5 \<noteq> ''true'' \<and> UseGPUs args5 \<noteq> ''false'')"
    using assms(9) by simp
  have stop: "snd ?stage = Inl EarlyReturn" "fst ?stage \<noteq> []"
    "last (fst ?stage) = Print gpuPrompt"
    unfolding resolveUseGPUs_def assms(10) if_not_P [OF assms(8)] if_P [OF assms(9)]
    by (rule wrapped_gives_up [of "\<lambda>v. v = [] \<or> (v \<noteq> ''true'' \<and> v \<noteq> ''false'')"
      "UseGPUs args5", OF again assms(11,12)])+
  have "resolveArguments w (cacheFallback fl cache) (stdin w)
          = (es1 @ es2 @ es3 @ es4 @ es5 @ fst ?stage, Inl EarlyReturn)"
    by (simp add: resolveArguments_def assms(3,4,5,6,7) andThen_stopped [OF stop(1)])
  then show ?thesis
    by (rule main_returns [OF assms(1,2)]) (simp_all add: stop)
qed

text \<open>
  Claim C8. Take a run that has come to one of the five prompts: the cache is loaded, the
  Docker steps before the prompts have passed, the earlier prompts have their answers, and
  the loop of this prompt is entered (for the GPU prompt: the operating system is not macOS
  and \<open>UseGPUs\<close> is empty). Let standard input hold, from there on, any number of lines
  that the loop reads and rejects, and then a read that fails: the end of input, an empty
  line or a line of several fields. Then \<open>main\<close> returns at this prompt: it ends by the
  early \<open>return\<close> with exit status 0, the prompt is the last thing it did, so no error
  report follows it, and it neither wrote the cache nor started the container. This holds
  for the device name, the device ID, the user ID, the operating system and the GPU
  prompt, in this order below. Conversely, every run of \<open>main\<close> that ends by the early
  \<open>return\<close> ended so at one of the five prompts.
\<close>

theorem failed_read_makes_main_return_silently:
  "(cacheFile w = Some cache \<and> beforePrompts w = (es0, Inr ())
      \<and> DeviceName (cacheFallback fl cache) = []
      \<and> stdin w = textLines @ rest \<and> list_all (unacceptable (\<lambda>v. v = [])) textLines
      \<and> scanln rest = None
    \<longrightarrow> silentReturn deviceNamePrompt (main fl w))
   \<and> (cacheFile w = Some cache \<and> beforePrompts w = (es0, Inr ())
      \<and> promptDeviceName (cacheFallback fl cache) (stdin w) = (es1, Inr (args1, inp1))
      \<and> (DeviceID args1 = [] \<or> \<not> isValidUUID w (DeviceID args1))
      \<and> inp1 = textLines @ rest
      \<and> list_all (unacceptable (\<lambda>v. v = [] \<or> \<not> isValidUUID w v)) textLines
      \<and> scanln rest = None
    \<longrightarrow> silentReturn deviceIDPrompt (main fl w))
   \<and> (cacheFile w = Some cache \<and> beforePrompts w = (es0, Inr ())
      \<and> promptDeviceName (cacheFallback fl cache) (stdin w) = (es1, Inr (args1, inp1))
      \<and> promptDeviceID w args1 inp1 = (es2, Inr (args2, inp2))
      \<and> (UserID args2 = [] \<or> \<not> isValidUUID w (UserID args2))
      \<and> inp2 = textLines @ rest
      \<and> list_all (unacceptable (\<lambda>v. v = [] \<or> \<not> isValidUUID w v)) textLines
      \<and> scanln rest = None
    \<longrightarrow> silentReturn userIDPrompt (main fl w))
   \<and> (cacheFile w = Some cache \<and> beforePrompts w = (es0, Inr ())
      \<and> promptDeviceName (cacheFallback fl cache) (stdin w) = (es1, Inr (args1, inp1))
      \<and> promptDeviceID w args1 inp1 = (es2, Inr (args2, inp2))
      \<and> promptUserID w args2 inp2 = (es3, Inr (args3, inp3))
      \<and> (OperatingSystem args3 = [] \<or> \<not> contains validOSChoices (OperatingSystem args3))
      \<and> inp3 = textLines @ rest
      \<and> list_all (unacceptable (\<lambda>v. v = [] \<or> \<not> contains validOSChoices v)) textLines
      \<and> scanln rest = None
    \<longrightarrow> silentReturn osPrompt (main fl w))
   \<and> (cacheFile w = Some cache \<and> beforePrompts w = (es0, Inr ())
      \<and> promptDeviceName (cacheFallback fl cache) (stdin w) = (es1, Inr (args1, inp1))
      \<and> promptDeviceID w args1 inp1 = (es2, Inr (args2, inp2))
      \<and> promptUserID w args2 inp2 = (es3, Inr (args3, inp3))
      \<and> promptOperatingSystem args3 inp3 = (es4, Inr (args4, inp4))
      \<and> resolveArchitecture w args4 = (es5, Inr args5)
      \<and> OperatingSystem args5 \<noteq> ''macOS'' \<and> UseGPUs args5 = []
      \<and> inp4 = textLines @ rest
      \<and> list_all (unacceptable (\<lambda>v. v = [] \<or> (v \<noteq> ''true'' \<and> v \<noteq> ''false''))) textLines
      \<and> scanln rest = None
    \<longrightarrow> silentReturn gpuPrompt (main fl w))
   \<and> (snd (main fl w) = EarlyReturn \<longrightarrow> (\<exists>p \<in> set promptTexts. silentReturn p (main fl w)))"
proof (intro conjI impI)
  assume "snd (main fl w) = EarlyReturn"
  with main_quietly [of fl w] show "\<exists>p \<in> set promptTexts. silentReturn p (main fl w)"
    by (auto simp: quietEnd_def silentReturn_def)
qed ((elim conjE, rule gives_up_at_device_name; assumption)
   | (elim conjE, rule gives_up_at_device_ID; assumption)
   | (elim conjE, rule gives_up_at_user_ID; assumption)
   | (elim conjE, rule gives_up_at_operating_system; assumption)
   | (elim conjE, rule gives_up_at_GPU; assumption))+

text \<open>
  Claim C8 at five runs with all flags given and an empty cache, one for each prompt: a
  closed standard input; a name and a wrong device ID; a name, a device ID and a line of two
  words; a name, two identifiers and \<open>Windows\<close>; a name, two identifiers, \<open>Linux\<close> and
  \<open>maybe\<close>. Each returns silently at its prompt.
\<close>

theorem failed_read_makes_main_return_silently_witness:
  "(cacheFile (closedAfter []) = Some Map.empty \<and> beforePrompts (closedAfter []) = ([], Inr ())
      \<and> DeviceName (cacheFallback scenarioFlags Map.empty) = []
      \<and> stdin (closedAfter []) = [] @ [] \<and> scanln [] = None
      \<and> silentReturn deviceNamePrompt (main scenarioFlags (closedAfter [])))
   \<and> (promptDeviceName (cacheFallback scenarioFlags Map.empty) (stdin (closedAfter [''rig'', ''not-a-uuid'']))
        = ([Print deviceNamePrompt], Inr (newArguments\<lparr>DeviceName := ''rig''\<rparr>, [''not-a-uuid'']))
      \<and> DeviceID (newArguments\<lparr>DeviceName := ''rig''\<rparr>) = []
      \<and> [''not-a-uuid''] = [''not-a-uuid''] @ []
      \<and> list_all (unacceptable (\<lambda>v. v = [] \<or> \<not> isValidUUID (closedAfter [''rig'', ''not-a-uuid'']) v))
           [''not-a-uuid'']
      \<and> silentReturn deviceIDPrompt (main scenarioFlags (closedAfter [''rig'', ''not-a-uuid''])))
   \<and> (promptDeviceID (closedAfter [''rig'', firstUUID, ''two words''])
          (newArguments\<lparr>DeviceName := ''rig''\<rparr>) [firstUUID, ''two words'']
        = ([Print deviceIDPrompt],
           Inr (newArguments\<lparr>DeviceName := ''rig'', DeviceID := firstUUID\<rparr>, [''two words'']))
      \<and> UserID (newArguments\<lparr>DeviceName := ''rig'', DeviceID := firstUUID\<rparr>) = []
      \<and> [''two words''] = [] @ [''two words''] \<and> scanln [''two words''] = None
      \<and> silentReturn userIDPrompt (main scenarioFlags (closedAfter [''rig'', firstUUID, ''two words''])))
   \<and> (promptUserID (closedAfter [''rig'', firstUUID, secondUUID, ''Windows''])
          (newArguments\<lparr>DeviceName := ''rig'', DeviceID := firstUUID\<rparr>) [secondUUID, ''Windows'']
        = ([Print userIDPrompt],
           Inr (newArguments\<lparr>DeviceName := ''rig'', DeviceID := firstUUID, UserID := secondUUID\<rparr>,
                [''Windows'']))
      \<and> list_all (unacceptable (\<lambda>v. v = [] \<or> \<not> contains validOSChoices v)) [''Windows'']
      \<and> silentReturn osPrompt
           (main scenarioFlags (closedAfter [''rig'', firstUUID, secondUUID, ''Windows''])))
   \<and> (promptOperatingSystem
          (newArguments\<lparr>DeviceName := ''rig'', DeviceID := firstUUID, UserID := secondUUID\<rparr>)
          [''Linux'', ''maybe'']
        = ([Print osPrompt],
           Inr (newArguments\<lparr>DeviceName := ''rig'', DeviceID := firstUUID, UserID := secondUUID,
                              OperatingSystem := ''Linux''\<rparr>, [''maybe'']))
      \<and> resolveArchitecture (closedAfter [''rig'', firstUUID, secondUUID, ''Linux'', ''maybe''])
          (newArguments\<lparr>DeviceName := ''rig'', DeviceID := firstUUID, UserID := secondUUID,
                           OperatingSystem := ''Linux''\<rparr>)
        = ([], Inr (newArguments\<lparr>DeviceName := ''rig'', DeviceID := firstUUID, UserID := secondUUID,
                                   OperatingSystem := ''Linux'', Architecture := ''x86_64''\<rparr>))
      \<and> list_all (unacceptable (\<lambda>v. v = [] \<or> (v \<noteq> ''true'' \<and> v \<noteq> ''false''))) [''maybe'']
      \<and> silentReturn gpuPrompt
           (main scenarioFlags (closedAfter [''rig'', firstUUID, secondUUID, ''Linux'', ''maybe''])))
   \<and> (snd (main scenarioFlags (closedAfter [])) = EarlyReturn
      \<and> (\<exists>p \<in> set promptTexts. silentReturn p (main scenarioFlags (closedAfter []))))"
proof -
  let ?w1 = "closedAfter []"
  let ?w2 = "closedAfter [''rig'', ''not-a-uuid'']"
  let ?w3 = "closedAfter [''rig'', firstUUID, ''two words'']"
  let ?w4 = "closedAfter [''rig'', firstUUID, secondUUID, ''Windows'']"
  let ?w5 = "closedAfter [''rig'', firstUUID, secondUUID, ''Linux'', ''maybe'']"
  let ?a0 = "cacheFallback scenarioFlags Map.empty"
  let ?a1 = "newArguments\<lparr>DeviceName := ''rig''\<rparr>"
  let ?a2 = "newArguments\<lparr>DeviceName := ''rig'', DeviceID := firstUUID\<rparr>"
  let ?a3 = "newArguments\<lparr>DeviceName := ''rig'', DeviceID := firstUUID, UserID := secondUUID\<rparr>"
  let ?a4 = "newArguments\<lparr>DeviceName := ''rig'', DeviceID := firstUUID, UserID := secondUUID,
                           OperatingSystem := ''Linux''\<rparr>"
  let ?a5 = "newArguments\<lparr>DeviceName := ''rig'', DeviceID := firstUUID, UserID := secondUUID,
                           OperatingSystem := ''Linux'', Architecture := ''x86_64''\<rparr>"
  have loaded: "cacheFile (closedAfter textLines) = Some Map.empty" for textLines
    by (simp add: closedAfter_def quietWorld_def)
  have before: "beforePrompts ?w1 = ([], Inr ())" "beforePrompts ?w2 = ([], Inr ())"
    "beforePrompts ?w3 = ([], Inr ())" "beforePrompts ?w4 = ([], Inr ())"
    "beforePrompts ?w5 = ([], Inr ())"
    by code_simp+
  have unnamed: "DeviceName ?a0 = []"
    by code_simp
  have input: "stdin ?w1 = [] @ []" "[''not-a-uuid''] = [''not-a-uuid''] @ []"
    "[''two words''] = [] @ [''two words'']" "[''Windows''] = [''Windows''] @ []"
    "[''maybe''] = [''maybe''] @ []"
    by (simp_all add: closedAfter_def)
  have closed: "scanln [] = None" and words: "scanln [''two words''] = None"
    by code_simp+
  have rejected:
    "list_all (unacceptable (\<lambda>v. v = [])) []"
    "list_all (unacceptable (\<lambda>v. v = [] \<or> \<not> isValidUUID ?w2 v)) [''not-a-uuid'']"
    "list_all (unacceptable (\<lambda>v. v = [] \<or> \<not> isValidUUID ?w3 v)) []"
    "list_all (unacceptable (\<lambda>v. v = [] \<or> \<not> contains validOSChoices v)) [''Windows'']"
    "list_all (unacceptable (\<lambda>v. v = [] \<or> (v \<noteq> ''true'' \<and> v \<noteq> ''false''))) [''maybe'']"
    by code_simp+
  have name: "promptDeviceName ?a0 (stdin ?w2) = ([Print deviceNamePrompt], Inr (?a1, [''not-a-uuid'']))"
    "promptDeviceName ?a0 (stdin ?w3) = ([Print deviceNamePrompt], Inr (?a1, [firstUUID, ''two words'']))"
    "promptDeviceName ?a0 (stdin ?w4)
       = ([Print deviceNamePrompt], Inr (?a1, [firstUUID, secondUUID, ''Windows'']))"
    "promptDeviceName ?a0 (stdin ?w5)
       = ([Print deviceNamePrompt], Inr (?a1, [firstUUID, secondUUID, ''Linux'', ''maybe'']))"
    by code_simp+
  have device: "promptDeviceID ?w3 ?a1 [firstUUID, ''two words'']
       = ([Print deviceIDPrompt], Inr (?a2, [''two words'']))"
    "promptDeviceID ?w4 ?a1 [firstUUID, secondUUID, ''Windows'']
       = ([Print deviceIDPrompt], Inr (?a2, [secondUUID, ''Windows'']))"
    "promptDeviceID ?w5 ?a1 [firstUUID, secondUUID, ''Linux'', ''maybe'']
       = ([Print deviceIDPrompt], Inr (?a2, [secondUUID, ''Linux'', ''maybe'']))"
    by code_simp+
  have user: "promptUserID ?w4 ?a2 [secondUUID, ''Windows'']
       = ([Print userIDPrompt], Inr (?a3, [''Windows'']))"
    "promptUserID ?w5 ?a2 [secondUUID, ''Linux'', ''maybe'']
       = ([Print userIDPrompt], Inr (?a3, [''Linux'', ''maybe'']))"
    by code_simp+
  have os: "promptOperatingSystem ?a3 [''Linux'', ''maybe'']
       = ([Print osPrompt], Inr (?a4, [''maybe'']))"
    by code_simp
  have arch: "resolveArchitecture ?w5 ?a4 = ([], Inr ?a5)"
    by code_simp
  have open_: "DeviceID ?a1 = [] \<or> \<not> isValidUUID ?w2 (DeviceID ?a1)"
    "UserID ?a2 = [] \<or> \<not> isValidUUID ?w3 (UserID ?a2)"
    "OperatingSystem ?a3 = [] \<or> \<not> contains validOSChoices (OperatingSystem ?a3)"
    "OperatingSystem ?a5 \<noteq> ''macOS''" "UseGPUs ?a5 = []"
    by (simp_all add: newArguments_def)
  have unset: "DeviceID ?a1 = []" "UserID ?a2 = []"
    by (simp_all add: newArguments_def)
  have r1: "silentReturn deviceNamePrompt (main scenarioFlags ?w1)"
    by (rule failed_read_makes_main_return_silently [where w = ?w1 and cache = Map.empty and fl = scenarioFlags
          and textLines = "[]" and rest = "[]", THEN conjunct1, THEN mp])
       (rule conjI loaded before unnamed input closed rejected)+
  have r2: "silentReturn deviceIDPrompt (main scenarioFlags ?w2)"
    by (rule failed_read_makes_main_return_silently [where w = ?w2 and cache = Map.empty and fl = scenarioFlags
          and textLines = "[''not-a-uuid'']" and rest = "[]",
          THEN conjunct2, THEN conjunct1, THEN mp])
       (rule conjI loaded before name input closed rejected open_)+
  have r3: "silentReturn userIDPrompt (main scenarioFlags ?w3)"
    by (rule failed_read_makes_main_return_silently [where w = ?w3 and cache = Map.empty and fl = scenarioFlags
          and textLines = "[]" and rest = "[''two words'']",
          THEN conjunct2, THEN conjunct2, THEN conjunct1, THEN mp])
       (rule conjI loaded before name device input words rejected open_)+
  have r4: "silentReturn osPrompt (main scenarioFlags ?w4)"
    by (rule failed_read_makes_main_return_silently [where w = ?w4 and cache = Map.empty and fl = scenarioFlags
          and textLines = "[''Windows'']" and rest = "[]",
          THEN conjunct2, THEN conjunct2, THEN conjunct2, THEN conjunct1, THEN mp])
       (rule conjI loaded before name device user input closed rejected open_)+
  have r5: "silentReturn gpuPrompt (main scenarioFlags ?w5)"
    by (rule failed_read_makes_main_return_silently [where w = ?w5 and cache = Map.empty and fl = scenarioFlags
          and textLines = "[''maybe'']" and rest = "[]",
          THEN conjunct2, THEN conjunct2, THEN conjunct2, THEN conjunct2, THEN conjunct1, THEN mp])
       (rule conjI loaded before name device user os arch input closed rejected open_)+
  have early: "snd (main scenarioFlags ?w1) = EarlyReturn"
    using r1 by (simp add: silentReturn_def)
  have r6: "\<exists>p \<in> set promptTexts. silentReturn p (main scenarioFlags ?w1)"
    by (rule failed_read_makes_main_return_silently [where w = ?w1 and fl = scenarioFlags,
          THEN conjunct2, THEN conjunct2, THEN conjunct2, THEN conjunct2, THEN conjunct2, THEN mp])
       (rule early)
  show ?thesis
    by (intro conjI loaded before unnamed input closed words rejected name device user os arch
          unset r1 r2 r3 r4 r5 early r6)
qed

section \<open>The fallback\<close>

lemma cacheFallback_fields:
  "DeviceID (cacheFallback fl cache) = [] \<and> UserID (cacheFallback fl cache) = []
   \<and> OperatingSystem (cacheFallback fl cache) = [] \<and> UseGPUs (cacheFallback fl cache) = []
   \<and> Architecture (cacheFallback fl cache) = [] \<and> \<not> Beta (cacheFallback fl cache)"
  by (simp add: cacheFallback_def newArguments_def Let_def)

lemma cacheFallback_DeviceName:
  "DeviceName (cacheFallback fl cache) =
     (if fallbackKeys fl = [] then [] else sprintV (cache (last (fallbackKeys fl))))"
  by (simp add: cacheFallback_def fallbackKeys_def newArguments_def Let_def)

lemma notice_not_prompt: "p \<in> set promptTexts \<Longrightarrow> last s = CHR 0x0A \<Longrightarrow> Print s \<noteq> Print p"
  by (auto simp: promptTexts_def deviceNamePrompt_def deviceIDPrompt_def userIDPrompt_def
      osPrompt_def gpuPrompt_def)

lemma prompts_distinct: "distinct promptTexts"
  by (simp add: promptTexts_def deviceNamePrompt_def deviceIDPrompt_def userIDPrompt_def
      osPrompt_def gpuPrompt_def)

text \<open>
  The fallback is a run of assignments to \<open>DeviceName\<close>, one for each key of
  \<open>fallbackKeys\<close>, in that order.
\<close>

lemma cacheFallback_assignments:
  "cacheFallback fl cache =
     fold (\<lambda>k a. a\<lparr>DeviceName := sprintV (cache k)\<rparr>) (fallbackKeys fl) newArguments"
  by (simp add: cacheFallback_def fallbackKeys_def Let_def)

lemma sprintV_nil: "sprintV None = ''<nil>''"
  by simp




section \<open>The resolver on macOS\<close>

lemma promptLoop_wrapped:
  assumes "andThen (promptLoop again invalid prompt complaint v inp) (\<lambda>(v', rest). ([], Inr (f v', rest)))
             = (es, Inr (a, inp'))"
  shows "\<exists>v'. a = f v' \<and> \<not> again v'"
proof (cases "promptLoop again invalid prompt complaint v inp")
  case (Pair es1 r)
  show ?thesis
  proof (cases r)
    case (Inl s)
    with Pair assms show ?thesis by simp
  next
    case (Inr x)
    obtain v' rest where x: "x = (v', rest)" by (cases x)
    from Pair Inr x have "snd (promptLoop again invalid prompt complaint v inp) = Inr (v', rest)"
      by simp
    then have "\<not> again v'" by (rule promptLoop_result)
    moreover from Pair Inr x assms have "a = f v'" by simp
    ultimately show ?thesis by blast
  qed
qed

lemma promptOperatingSystem_result:
  "promptOperatingSystem args inp = (es, Inr (a, inp'))
     \<Longrightarrow> contains validOSChoices (OperatingSystem a)"
  unfolding promptOperatingSystem_def
  by (drule promptLoop_wrapped) auto

lemma resolveArchitecture_keeps:
  "resolveArchitecture w args = (es, Inr a) \<Longrightarrow> OperatingSystem a = OperatingSystem args"
  by (auto simp: resolveArchitecture_def split: if_splits sum.splits)

lemma resolveUseGPUs_keeps:
  "resolveUseGPUs args inp = (es, Inr (a, inp')) \<Longrightarrow> OperatingSystem a = OperatingSystem args"
  unfolding resolveUseGPUs_def
  by (auto split: if_splits dest!: promptLoop_wrapped)

lemma resolveUseGPUs_macOS:
  "OperatingSystem args = ''macOS''
     \<Longrightarrow> resolveUseGPUs args inp = ([Println macNote], Inr (args\<lparr>UseGPUs := ''false''\<rparr>, inp))"
  by (simp add: resolveUseGPUs_def)

lemma resolveArguments_steps:
  assumes "resolveArguments w args0 inp0 = (es, Inr args)"
  shows "\<exists>es1 args1 inp1 es2 args2 inp2 es3 args3 inp3 es4 args4 inp4 es5 args5 es6 inp6.
    promptDeviceName args0 inp0 = (es1, Inr (args1, inp1))
    \<and> promptDeviceID w args1 inp1 = (es2, Inr (args2, inp2))
    \<and> promptUserID w args2 inp2 = (es3, Inr (args3, inp3))
    \<and> promptOperatingSystem args3 inp3 = (es4, Inr (args4, inp4))
    \<and> resolveArchitecture w args4 = (es5, Inr args5)
    \<and> resolveUseGPUs args5 inp4 = (es6, Inr (args, inp6))
    \<and> es = es1 @ es2 @ es3 @ es4 @ es5 @ es6"
  using assms unfolding resolveArguments_def
  by (auto simp: andThen_Inr_iff split: prod.splits)

lemma sublist_MAC_INFO:
  "sublist [''-e'', ''MAC_INFO='' @ trimSpace m] (pre @ macPart m @ post)
   \<and> sublist [''--pull'', ''always''] (pre @ macPart m @ post)"
proof
  have "pre @ macPart m @ post
          = pre @ [''-e'', ''MAC_INFO='' @ trimSpace m] @ ([''--pull'', ''always''] @ post)"
    by (simp add: macPart_def)
  then show "sublist [''-e'', ''MAC_INFO='' @ trimSpace m] (pre @ macPart m @ post)"
    by (simp only: sublist_appendI)
  have "pre @ macPart m @ post
          = (pre @ [''-e'', ''MAC_INFO='' @ trimSpace m]) @ [''--pull'', ''always''] @ post"
    by (simp add: macPart_def)
  then show "sublist [''--pull'', ''always''] (pre @ macPart m @ post)"
    by (simp only: sublist_appendI)
qed

text \<open>
  Claim C4. Whenever the resolver finishes with \<open>OperatingSystem\<close> equal to \<open>macOS\<close>
  (whatever the flags and the cache were), \<open>UseGPUs\<close> is \<open>false\<close>, the GPU prompt was
  never printed, and the builder on these arguments either aborts because the \<open>sysctl\<close>
  pipeline failed or returns a command that holds \<open>-e MAC_INFO=...\<close> and
  \<open>--pull always\<close>.
\<close>

theorem macOS_forces_UseGPUs_false:
  assumes "resolveArguments w args0 inp0 = (es, Inr args)"
    and "OperatingSystem args = ''macOS''"
  shows "UseGPUs args = ''false'' \<and> Print gpuPrompt \<notin> set es
       \<and> (case constructDockerCommand w args (Architecture args) of
            Inl s \<Rightarrow> sysctlMachdep w = None
          | Inr cmd \<Rightarrow> (\<exists>info. sublist [''-e'', ''MAC_INFO='' @ info] cmd)
                       \<and> sublist [''--pull'', ''always''] cmd)"
proof -
  from assms(1) obtain es1 args1 inp1 es2 args2 inp2 es3 args3 inp3 es4 args4 inp4 es5 args5
    es6 inp6 where
    s1: "promptDeviceName args0 inp0 = (es1, Inr (args1, inp1))" and
    s2: "promptDeviceID w args1 inp1 = (es2, Inr (args2, inp2))" and
    s3: "promptUserID w args2 inp2 = (es3, Inr (args3, inp3))" and
    s4: "promptOperatingSystem args3 inp3 = (es4, Inr (args4, inp4))" and
    s5: "resolveArchitecture w args4 = (es5, Inr args5)" and
    s6: "resolveUseGPUs args5 inp4 = (es6, Inr (args, inp6))" and
    es: "es = es1 @ es2 @ es3 @ es4 @ es5 @ es6"
    using resolveArguments_steps [OF assms(1)] by blast
  from s6 assms(2) have mac: "OperatingSystem args5 = ''macOS''"
    by (simp add: resolveUseGPUs_keeps)
  from s6 have gpu: "es6 = [Println macNote]" "args = args5\<lparr>UseGPUs := ''false''\<rparr>"
    by (simp_all add: resolveUseGPUs_macOS [OF mac])
  have others: "deviceNamePrompt \<noteq> gpuPrompt" "deviceIDPrompt \<noteq> gpuPrompt"
    "userIDPrompt \<noteq> gpuPrompt" "osPrompt \<noteq> gpuPrompt"
    using prompts_distinct by (auto simp: promptTexts_def)
  have notice: "Print s \<noteq> Print gpuPrompt" if "last s = CHR 0x0A" for s
    using notice_not_prompt [OF _ that, of gpuPrompt] by simp
  let ?P = "\<lambda>e. e \<noteq> Print gpuPrompt"
  have "list_all ?P (fst (promptDeviceName args0 inp0))"
    by (rule promptDeviceName_events) (use others notice in simp_all)
  moreover have "list_all ?P (fst (promptDeviceID w args1 inp1))"
    by (rule promptDeviceID_events) (use others notice in simp_all)
  moreover have "list_all ?P (fst (promptUserID w args2 inp2))"
    by (rule promptUserID_events) (use others notice in simp_all)
  moreover have "list_all ?P (fst (promptOperatingSystem args3 inp3))"
    by (rule promptOperatingSystem_events) (use others notice in simp_all)
  moreover have "es5 = []"
    using s5 resolveArchitecture_events [of w args4] by simp
  moreover have "Println macNote \<noteq> Print gpuPrompt"
    unfolding Println_def by (rule notice) simp
  ultimately have "list_all ?P es"
    using s1 s2 s3 s4 by (simp add: es gpu)
  then have quiet: "Print gpuPrompt \<notin> set es"
    by (auto simp: list_all_iff)
  have cmd: "case constructDockerCommand w args (Architecture args) of
            Inl s \<Rightarrow> sysctlMachdep w = None
          | Inr cmd \<Rightarrow> (\<exists>info. sublist [''-e'', ''MAC_INFO='' @ info] cmd)
                       \<and> sublist [''--pull'', ''always''] cmd"
  proof (cases "sysctlMachdep w")
    case None
    with assms(2) show ?thesis by (simp add: constructDockerCommand_parts)
  next
    case (Some m)
    have "constructDockerCommand w args (Architecture args)
            = Inr ((fixedPart (Architecture args) @ platformPart (Architecture args) @ identityPart args)
                   @ macPart m @ imagePart args)"
      using assms(2) Some by (simp add: constructDockerCommand_parts)
    with sublist_MAC_INFO [of m "fixedPart (Architecture args) @ platformPart (Architecture args) @ identityPart args" "imagePart args"]
    show ?thesis by (simp only: sum.case) blast
  qed
  from gpu quiet cmd show ?thesis by simp
qed

text \<open>
  Claim C4 at a run: no flags, an empty cache, and the user answers two UUIDs and \<open>macOS\<close>.
\<close>

theorem macOS_forces_UseGPUs_false_witness:
  "resolveArguments macWorld (cacheFallback noFlags Map.empty)
       [''00000000-0000-0000-0000-000000000001'', ''00000000-0000-0000-0000-000000000002'', ''macOS'']
     = ([Print deviceIDPrompt, Print userIDPrompt, Print osPrompt, Println macNote],
        Inr \<lparr>DeviceName = ''<nil>'', DeviceID = ''00000000-0000-0000-0000-000000000001'',
             UserID = ''00000000-0000-0000-0000-000000000002'', OperatingSystem = ''macOS'',
             UseGPUs = ''false'', Architecture = ''arm64'', Beta = False\<rparr>)
   \<and> Print gpuPrompt \<notin> set [Print deviceIDPrompt, Print userIDPrompt, Print osPrompt, Println macNote]
   \<and> (case constructDockerCommand macWorld
              \<lparr>DeviceName = ''<nil>'', DeviceID = ''00000000-0000-0000-0000-000000000001'',
               UserID = ''00000000-0000-0000-0000-000000000002'', OperatingSystem = ''macOS'',
               UseGPUs = ''false'', Architecture = ''arm64'', Beta = False\<rparr> ''arm64'' of
         Inl s \<Rightarrow> False
       | Inr cmd \<Rightarrow> (\<exists>info. sublist [''-e'', ''MAC_INFO='' @ info] cmd)
                    \<and> sublist [''--pull'', ''always''] cmd)"
proof -
  let ?A = "\<lparr>DeviceName = ''<nil>'', DeviceID = ''00000000-0000-0000-0000-000000000001'',
             UserID = ''00000000-0000-0000-0000-000000000002'', OperatingSystem = ''macOS'',
             UseGPUs = ''false'', Architecture = ''arm64'', Beta = False\<rparr>"
  have run: "resolveArguments macWorld (cacheFallback noFlags Map.empty)
       [''00000000-0000-0000-0000-000000000001'', ''00000000-0000-0000-0000-000000000002'', ''macOS'']
     = ([Print deviceIDPrompt, Print userIDPrompt, Print osPrompt, Println macNote], Inr ?A)"
    by code_simp
  have os: "OperatingSystem ?A = ''macOS''" by simp
  have returns: "sysctlMachdep macWorld \<noteq> None" by (simp add: macWorld_def)
  from macOS_forces_UseGPUs_false [OF run os] run returns show ?thesis
    by (cases "constructDockerCommand macWorld ?A ''arm64''") simp_all
qed

section \<open>The Image Janitor\<close>

lemma removeImages_Cons:
  "removeImages w (i # ids) =
     (if dockerRmiOk w i then (DockerRmi i # fst (removeImages w ids), snd (removeImages w ids))
      else ([DockerRmi i], Inl LogFatal))"
  by (simp add: removeDockerImage_def)

lemma removeImages_attempts: "prefix (removedImages (fst (removeImages w ids))) ids"
proof (induction ids)
  case Nil
  show ?case by simp
next
  case (Cons i ids)
  then show ?case unfolding removeImages_Cons by simp
qed

lemma removeImages_status:
  "snd (removeImages w ids) = (if \<forall>i \<in> set ids. dockerRmiOk w i then Inr () else Inl LogFatal)"
proof (induction ids)
  case Nil
  show ?case by simp
next
  case (Cons i ids)
  then show ?case unfolding removeImages_Cons by simp
qed

lemma removeImages_ok:
  "\<forall>i \<in> set ids. dockerRmiOk w i \<Longrightarrow> removedImages (fst (removeImages w ids)) = ids"
proof (induction ids)
  case Nil
  show ?case by simp
next
  case (Cons i ids)
  then show ?case unfolding removeImages_Cons by simp
qed

lemma pruneRepo_listed:
  assumes "getDockerImageIDsSorted w repoName = Inr imageIDs"
  shows "removedImages (fst (pruneRepo w repoName)) = removedImages (fst (removeImages w (drop 1 imageIDs)))"
    and "snd (pruneRepo w repoName) = snd (removeImages w (drop 1 imageIDs))"
    and "imageIDs = [] \<Longrightarrow> pruneRepo w repoName = ([], Inr ())"
  using assms by (simp_all add: pruneRepo_def)

text \<open>
  What the janitor does for one repository, in terms of the list \<open>imageIDs\<close> that
  \<open>getDockerImageIDsSorted\<close> returns: it passes to \<open>docker rmi\<close> only images after the
  first, in order; when every such removal succeeds it removes all of them and goes on;
  otherwise it aborts by \<open>log.Fatal\<close> at the first removal that fails; on an empty list
  it does nothing.
\<close>

theorem janitor_removes_all_listed_after_first:
  assumes "getDockerImageIDsSorted w repoName = Inr imageIDs"
  shows "prefix (removedImages (fst (pruneRepo w repoName))) (drop 1 imageIDs)
       \<and> ((\<forall>i \<in> set (drop 1 imageIDs). dockerRmiOk w i) \<longrightarrow>
            snd (pruneRepo w repoName) = Inr ()
            \<and> removedImages (fst (pruneRepo w repoName)) = drop 1 imageIDs)
       \<and> (snd (pruneRepo w repoName) \<noteq> Inr () \<longrightarrow>
            snd (pruneRepo w repoName) = Inl LogFatal
            \<and> (\<exists>i \<in> set (drop 1 imageIDs). \<not> dockerRmiOk w i))
       \<and> (imageIDs = [] \<longrightarrow> pruneRepo w repoName = ([], Inr ()))"
proof -
  note run = pruneRepo_listed [OF assms]
  have attempts: "prefix (removedImages (fst (pruneRepo w repoName))) (drop 1 imageIDs)"
    unfolding run(1) by (rule removeImages_attempts)
  have complete: "(\<forall>i \<in> set (drop 1 imageIDs). dockerRmiOk w i) \<longrightarrow>
            snd (pruneRepo w repoName) = Inr ()
            \<and> removedImages (fst (pruneRepo w repoName)) = drop 1 imageIDs"
    unfolding run(1,2) by (simp add: removeImages_status removeImages_ok)
  have abort: "snd (pruneRepo w repoName) \<noteq> Inr () \<longrightarrow>
            snd (pruneRepo w repoName) = Inl LogFatal
            \<and> (\<exists>i \<in> set (drop 1 imageIDs). \<not> dockerRmiOk w i)"
    unfolding run(2) removeImages_status by simp
  from attempts complete abort run(3) show ?thesis
    by blast
qed

section \<open>What a completed resolver guarantees\<close>

lemma promptDeviceName_result:
  "promptDeviceName args inp = (es, Inr (a, inp')) \<Longrightarrow> \<exists>v. a = args\<lparr>DeviceName := v\<rparr> \<and> v \<noteq> []"
  unfolding promptDeviceName_def by (drule promptLoop_wrapped) auto

lemma promptDeviceID_result:
  "promptDeviceID w args inp = (es, Inr (a, inp'))
     \<Longrightarrow> \<exists>v. a = args\<lparr>DeviceID := v\<rparr> \<and> isValidUUID w v"
  unfolding promptDeviceID_def by (drule promptLoop_wrapped) auto

lemma promptUserID_result:
  "promptUserID w args inp = (es, Inr (a, inp'))
     \<Longrightarrow> \<exists>v. a = args\<lparr>UserID := v\<rparr> \<and> isValidUUID w v"
  unfolding promptUserID_def by (drule promptLoop_wrapped) auto

lemma promptOperatingSystem_update:
  "promptOperatingSystem args inp = (es, Inr (a, inp'))
     \<Longrightarrow> \<exists>v. a = args\<lparr>OperatingSystem := v\<rparr> \<and> contains validOSChoices v"
  unfolding promptOperatingSystem_def by (drule promptLoop_wrapped) auto

lemma resolveArchitecture_update:
  "resolveArchitecture w args = (es, Inr a) \<Longrightarrow> \<exists>v. a = args\<lparr>Architecture := v\<rparr>"
  by (auto simp: resolveArchitecture_def split: if_splits sum.splits intro: exI [of _ "Architecture args"])

lemma resolveUseGPUs_update:
  "resolveUseGPUs args inp = (es, Inr (a, inp')) \<Longrightarrow> \<exists>v. a = args\<lparr>UseGPUs := v\<rparr>"
  unfolding resolveUseGPUs_def
  by (auto split: if_splits dest!: promptLoop_wrapped intro: exI [of _ "UseGPUs args"])

lemma resolveArguments_result:
  assumes "resolveArguments w args0 inp0 = (es, Inr args)"
  shows "DeviceName args \<noteq> [] \<and> isValidUUID w (DeviceID args) \<and> isValidUUID w (UserID args)
       \<and> contains validOSChoices (OperatingSystem args) \<and> Beta args = Beta args0"
proof -
  from resolveArguments_steps [OF assms]
  obtain es1 args1 inp1 es2 args2 inp2 es3 args3 inp3 es4 args4 inp4 es5 args5 es6 inp6 where
    s1: "promptDeviceName args0 inp0 = (es1, Inr (args1, inp1))" and
    s2: "promptDeviceID w args1 inp1 = (es2, Inr (args2, inp2))" and
    s3: "promptUserID w args2 inp2 = (es3, Inr (args3, inp3))" and
    s4: "promptOperatingSystem args3 inp3 = (es4, Inr (args4, inp4))" and
    s5: "resolveArchitecture w args4 = (es5, Inr args5)" and
    s6: "resolveUseGPUs args5 inp4 = (es6, Inr (args, inp6))"
    by blast
  from promptDeviceName_result [OF s1] promptDeviceID_result [OF s2] promptUserID_result [OF s3]
    promptOperatingSystem_update [OF s4] resolveArchitecture_update [OF s5]
    resolveUseGPUs_update [OF s6]
  show ?thesis by auto
qed

text \<open>
  Whenever the resolver finishes, the device name is not empty, both identifiers are
  accepted by \<open>uuid.Parse\<close>, and the operating system is \<open>macOS\<close> or \<open>Linux\<close>.
\<close>

theorem resolver_result_is_validated:
  "resolveArguments w args0 inp0 = (es, Inr args) \<Longrightarrow>
     DeviceName args \<noteq> [] \<and> isValidUUID w (DeviceID args) \<and> isValidUUID w (UserID args)
     \<and> (OperatingSystem args = ''macOS'' \<or> OperatingSystem args = ''Linux'')"
  by (drule resolveArguments_result) (auto simp: validOSChoices_def split: if_splits)

section \<open>What a launch implies\<close>

lemma member_andThen:
  "e \<in> set (fst (andThen m k)) \<Longrightarrow>
     e \<in> set (fst m) \<or> (\<exists>es a. m = (es, Inr a) \<and> e \<in> set (fst (k a)))"
  by (cases m k rule: andThen_cases) auto

lemma notin_events: "list_all (\<lambda>e. e \<noteq> x) es \<Longrightarrow> x \<notin> set es"
  by (auto simp: list_all_iff)

lemma launch_DockerRun:
  assumes "DockerRun cmd \<in> set (fst (launch w args))"
  shows "constructDockerCommand w args (Architecture args) = Inr cmd
       \<and> contains validArchChoices (Architecture args)"
proof -
  let ?x = "DockerRun cmd"
  have no: "?x \<notin> set (fst (gpuChecks w args))" "?x \<notin> set (fst (requireDocker (dockerInfoSecond w)))"
    "?x \<notin> set (fst (validateChoices args))" "?x \<notin> set (fst (macSiliconCheck w args))"
    "?x \<notin> set (fst (saveCache w (cacheData args)))"
    by (rule notin_events, rule gpuChecks_events requireDocker_events validateChoices_events
          macSiliconCheck_events, simp)+
       (simp add: saveCache_def)
  from assms no have run:
    "\<exists>es c. constructDockerCommand w args (Architecture args) = Inr c
        \<and> ?x \<in> set (fst (runCommand w c))"
    and valid: "\<exists>es u. validateChoices args = (es, Inr u)"
    unfolding launch_def by (auto dest!: member_andThen)
  from run have "constructDockerCommand w args (Architecture args) = Inr cmd"
    by (auto simp: runCommand_def)
  moreover from valid have "contains validArchChoices (Architecture args)"
    by (auto simp: validateChoices_def split: if_splits)
  ultimately show ?thesis by simp
qed

lemma main_DockerRun:
  assumes "DockerRun cmd \<in> set (fst (main fl w))"
  shows "\<exists>cache es args. cacheFile w = Some cache
       \<and> resolveArguments w (cacheFallback fl cache) (stdin w) = (es, Inr args)
       \<and> constructDockerCommand w args (Architecture args) = Inr cmd
       \<and> contains validArchChoices (Architecture args)"
proof (cases "cacheFile w")
  case None
  with assms show ?thesis by (simp add: main_not_loaded)
next
  case (Some cache)
  let ?x = "DockerRun cmd"
  have no: "?x \<notin> set (fst (beforePrompts w))"
    by (rule notin_events, rule beforePrompts_events) simp_all
  have "list_all harmless (fst (resolveArguments w (cacheFallback fl cache) (stdin w)))"
    by (rule resolveArguments_harmless)
  then have no_resolver: "?x \<notin> set (fst (resolveArguments w (cacheFallback fl cache) (stdin w)))"
    by (auto simp: list_all_iff)
  from assms no no_resolver have
    "\<exists>es args. resolveArguments w (cacheFallback fl cache) (stdin w) = (es, Inr args)
        \<and> ?x \<in> set (fst (launch w args))"
    unfolding main_loaded [OF Some] fst_conv by (auto dest!: member_andThen)
  with Some show ?thesis by (auto dest: launch_DockerRun)
qed

lemma envFlag_first:
  "t \<in> set (envFlag name v) \<Longrightarrow> name \<noteq> [] \<Longrightarrow> t = ''-e'' \<or> take 1 t = take 1 name"
  by (cases name) (auto simp: envFlag_def split: if_splits)

lemma identityPart_first:
  "t \<in> set (identityPart args) \<Longrightarrow> t = ''-e'' \<or> take 1 t \<in> {''D'', ''U'', ''O''}"
  unfolding identityPart_def set_append Un_iff
  by (elim disjE; drule envFlag_first; simp; blast)

lemma debug_not_in_identityPart: "''CURRENT_LOG_LEVEL=DEBUG'' \<notin> set (identityPart args)"
proof
  assume "''CURRENT_LOG_LEVEL=DEBUG'' \<in> set (identityPart args)"
  from identityPart_first [OF this] show False by simp
qed

lemma constructDockerCommand_image:
  assumes "constructDockerCommand w args arch = Inr cmd"
  shows "last cmd = (if Beta args then ''ionetcontainers/io-launch-beta:v0.1''
                     else ''ionetcontainers/io-launch:v0.1'')
       \<and> (''CURRENT_LOG_LEVEL=DEBUG'' \<in> set cmd \<longrightarrow> Beta args)"
proof -
  have parts: "last (pre @ imagePart args) = (if Beta args then ''ionetcontainers/io-launch-beta:v0.1''
                     else ''ionetcontainers/io-launch:v0.1'')" for pre
    using imagePart_last [of args] by simp
  have debug: "''CURRENT_LOG_LEVEL=DEBUG'' \<notin> set (fixedPart arch @ platformPart arch @ identityPart args)"
    "''CURRENT_LOG_LEVEL=DEBUG'' \<notin> set (macPart m)"
    "''CURRENT_LOG_LEVEL=DEBUG'' \<in> set (imagePart args) \<longrightarrow> Beta args" for m
    using debug_not_in_identityPart [of args]
    by (simp_all add: fixedPart_def platformPart_def macPart_def imagePart_def)
  show ?thesis
  proof (cases "OperatingSystem args = ''macOS''")
    case False
    with assms have "cmd = (fixedPart arch @ platformPart arch @ identityPart args) @ imagePart args"
      by (simp add: constructDockerCommand_parts)
    with parts debug show ?thesis by (simp only: set_append Un_iff) blast
  next
    case True
    with assms obtain m where
      "cmd = ((fixedPart arch @ platformPart arch @ identityPart args) @ macPart m) @ imagePart args"
      by (auto simp: constructDockerCommand_parts split: option.splits)
    with parts debug show ?thesis by (simp only: set_append Un_iff) blast
  qed
qed

text \<open>
  In every run of \<open>main\<close>, with any flags, a command that is launched ends with the
  stable image and does not hold the debug variable: \<open>args.Beta\<close> is never set.
\<close>

theorem every_launch_uses_stable_image:
  "DockerRun cmd \<in> set (fst (main fl w)) \<Longrightarrow>
     last cmd = ''ionetcontainers/io-launch:v0.1'' \<and> ''CURRENT_LOG_LEVEL=DEBUG'' \<notin> set cmd"
proof -
  assume "DockerRun cmd \<in> set (fst (main fl w))"
  from main_DockerRun [OF this] obtain cache es args where
    r: "resolveArguments w (cacheFallback fl cache) (stdin w) = (es, Inr args)"
    and c: "constructDockerCommand w args (Architecture args) = Inr cmd"
    by blast
  from resolveArguments_result [OF r] have "\<not> Beta args"
    by (simp add: cacheFallback_fields)
  with constructDockerCommand_image [OF c] show ?thesis by auto
qed

text \<open>
  For every choice of flags and every cache, the fallback of lines 237 to 257 leaves every
  field of \<open>Arguments\<close> at its zero value except \<open>DeviceName\<close>, which holds what the
  last branch taken read from the cache.
\<close>

theorem fallback_sets_only_DeviceName:
  "cacheFallback fl cache =
     newArguments\<lparr>DeviceName := (if fallbackKeys fl = [] then []
                                  else sprintV (cache (last (fallbackKeys fl))))\<rparr>"
  using cacheFallback_fields [of fl cache] cacheFallback_DeviceName [of fl cache]
  by (cases "cacheFallback fl cache") (simp add: newArguments_def)

section \<open>Runs on which the code departs from its specification\<close>

text \<open>
  Claim C1 fails on the code. With every flag of the scenario given and an empty cache, the
  fallback leaves all of \<open>Arguments\<close> empty, because no statement copies a flag into it.
  On a closed standard input the program prints the device-name prompt and returns; on a
  standard input with answers it asks all five questions and launches with the answers, not
  with the flags.
\<close>

theorem scenario_flags_are_ignored:
  "cacheFallback scenarioFlags Map.empty = newArguments
   \<and> main scenarioFlags quietWorld = ([Print deviceNamePrompt], EarlyReturn)
   \<and> main scenarioFlags
       (quietWorld\<lparr>stdin := [''other'', ''00000000-0000-0000-0000-000000000001'',
                              ''00000000-0000-0000-0000-000000000002'', ''Linux'', ''false'']\<rparr>)
     = ([Print deviceNamePrompt, Print deviceIDPrompt, Print userIDPrompt, Print osPrompt,
         Print gpuPrompt,
         SaveCache [(''device_name'', ''other''),
                    (''device_id'', ''00000000-0000-0000-0000-000000000001''),
                    (''user_id'', ''00000000-0000-0000-0000-000000000002''),
                    (''operating_system'', ''Linux''), (''usegpus'', ''false'')],
         DockerRun [''docker'', ''run'', ''-d'', ''-v'', ''/var/run/docker.sock:/var/run/docker.sock'',
                    ''--network'', ''host'', ''-e'', ''ARCH=x86_64'', ''-e'', ''DEVICE_NAME=other'',
                    ''-e'', ''DEVICE_ID=00000000-0000-0000-0000-000000000001'',
                    ''-e'', ''USER_ID=00000000-0000-0000-0000-000000000002'',
                    ''-e'', ''OPERATING_SYSTEM=Linux'', ''-e'', ''USEGPUS=false'',
                    ''ionetcontainers/io-launch:v0.1'']],
        Finished)"
  by code_simp

text \<open>
  Claim C2 fails on the code. Without flags, a cache that holds all five keys leaves
  \<open>DeviceID\<close>, \<open>UserID\<close>, \<open>OperatingSystem\<close> and \<open>UseGPUs\<close> empty, and
  \<open>DeviceName\<close> ends as \<open><nil>\<close> (the value of the missing key \<open>arch\<close>). With only
  \<open>--device_id\<close> missing, the cached device ID lands in \<open>DeviceName\<close>.
\<close>

theorem cached_values_all_go_to_DeviceName:
  "cacheFallback noFlags writtenCache = newArguments\<lparr>DeviceName := ''<nil>''\<rparr>
   \<and> cacheFallback (scenarioFlags\<lparr>deviceID := []\<rparr>) writtenCache
       = newArguments\<lparr>DeviceName := ''123e4567-e89b-12d3-a456-426614174000''\<rparr>"
  by code_simp

text \<open>
  Claim C3 fails on the code. With \<open>--beta\<close> set, a run that reaches the launch starts the
  stable image without the two debug variables: \<open>main\<close> never sets \<open>args.Beta\<close>.
\<close>

theorem beta_flag_launches_stable_image:
  "main (noFlags\<lparr>beta := True\<rparr>)
       (quietWorld\<lparr>stdin := [''00000000-0000-0000-0000-000000000001'',
                              ''00000000-0000-0000-0000-000000000002'', ''Linux'', ''false'']\<rparr>)
     = ([Print deviceIDPrompt, Print userIDPrompt, Print osPrompt, Print gpuPrompt,
         SaveCache [(''device_name'', ''<nil>''),
                    (''device_id'', ''00000000-0000-0000-0000-000000000001''),
                    (''user_id'', ''00000000-0000-0000-0000-000000000002''),
                    (''operating_system'', ''Linux''), (''usegpus'', ''false'')],
         DockerRun [''docker'', ''run'', ''-d'', ''-v'', ''/var/run/docker.sock:/var/run/docker.sock'',
                    ''--network'', ''host'', ''-e'', ''ARCH=x86_64'', ''-e'', ''DEVICE_NAME=<nil>'',
                    ''-e'', ''DEVICE_ID=00000000-0000-0000-0000-000000000001'',
                    ''-e'', ''USER_ID=00000000-0000-0000-0000-000000000002'',
                    ''-e'', ''OPERATING_SYSTEM=Linux'', ''-e'', ''USEGPUS=false'',
                    ''ionetcontainers/io-launch:v0.1'']],
        Finished)"
  by code_simp

text \<open>
  Claim C7 fails on the code. The lines of the listing start with repository and tag, and
  \<open>sort -r\<close> compares whole lines, so the images come ordered by tag, descending as text,
  and not by creation time. On a host that holds \<open>io-launch:v0.9\<close> of 1 May 2024 and
  \<open>io-launch:v0.10\<close> of 1 June 2024, the line of \<open>v0.9\<close> comes first, and a run of
  \<open>main\<close> removes the image created last and keeps the older one.
\<close>

theorem janitor_removes_newest_image:
  "dockerImageLs twoVersionsWorld ''ionetcontainers/io-launch'' = Some [launch10, launch09]
   \<and> CreatedAt launch09 < CreatedAt launch10
   \<and> imageListing ''ionetcontainers/io-launch'' [launch10, launch09]
       = ''ionetcontainers/io-launch:v0.9 2024-05-01 10:00:00 +0000 UTC sha256:0909'' @ [CHR 0x0A]
         @ ''ionetcontainers/io-launch:v0.10 2024-06-01 10:00:00 +0000 UTC sha256:1010'' @ [CHR 0x0A]
   \<and> getDockerImageIDsSorted twoVersionsWorld ''ionetcontainers/io-launch''
       = Inr [ID launch09, ID launch10]
   \<and> main noFlags twoVersionsWorld
       = ([Print (''removing stale images: ionetcontainers/io-launch'' @ [CHR 0x0A]),
           DockerRmi (ID launch10), Print deviceIDPrompt], EarlyReturn)
   \<and> removedImages (fst (main noFlags twoVersionsWorld)) = [ID launch10]"
  by code_simp

end
